theory Spec2Isabelle
  imports Complex_Main "HOL-Library.AList"
begin

section \<open>Data model\<close>

text \<open>
  The peer side is the React hook \<open>useWebRTC\<close> (src/unnamed/part_000), the relay is
  \<open>SocketHandler\<close> (src/pages/api/socket.ts), the guest's pointer handlers are in the guest
  page (src/unnamed/part_001).

  The hook keeps three JavaScript \<open>Map\<close>s keyed by the remote participant id. A JavaScript
  \<open>Map\<close> is insertion-ordered and is iterated by \<open>sendInputEvent\<close>, so each one is an
  association list: \<open>map_of\<close> is \<open>get\<close>, \<open>AList.update\<close> is \<open>set\<close> (in place when the key
  is present, at the end otherwise), \<open>AList.delete\<close> is \<open>delete\<close>.

  The objects the maps point to (\<open>RTCPeerConnection\<close>, \<open>RTCDataChannel\<close>) live in the
  browser. They are kept in two stores indexed by a handle, so that two map entries
  holding the same object are visibly the same, and an object dropped from a map is still
  there to raise events.

  Every handler of the source is \<open>async\<close>; here each one runs to completion before the
  next event is taken.
\<close>

type_synonym uid = string
type_synonym room_id = string
type_synonym handle = nat
type_synonym candidate = string
type_synonym track = nat

datatype sdp_type = Offer | Answer

record sdp =
  sdp_kind :: sdp_type
  sdp_body :: string

datatype signaling_state =
  Stable | HaveLocalOffer | HaveRemoteOffer | HaveLocalPranswer | HaveRemotePranswer | SigClosed

datatype connection_state = New | Connecting | Connected | Disconnected | Failed | Closed

datatype ready_state = ChConnecting | ChOpen | ChClosing | ChClosed

datatype input_type = Mousemove | Mousedown | Mouseup | Click | Keydown | Keyup | Wheel

text \<open>\<open>interface InputEvent\<close>: every field but \<open>type\<close> and \<open>timestamp\<close> is optional.\<close>

record InputEvent =
  ev_type :: input_type
  ev_x :: "rat option"
  ev_y :: "rat option"
  ev_button :: "int option"
  ev_key :: "string option"
  ev_code :: "string option"
  ev_deltaY :: "rat option"
  ev_timestamp :: int

text \<open>
  What travels on a data channel is text. \<open>Json e\<close> is the text \<open>JSON.stringify\<close> makes of
  \<open>e\<close> and \<open>JSON.parse\<close> reads back as \<open>e\<close>; \<open>Malformed t\<close> is any text \<open>JSON.parse\<close> throws
  on.
\<close>

datatype wire = Json InputEvent | Malformed string

definition JSON_stringify :: "InputEvent \<Rightarrow> wire" where
  "JSON_stringify e = Json e"

fun JSON_parse :: "wire \<Rightarrow> InputEvent option" where
  "JSON_parse (Json e) = Some e"
| "JSON_parse (Malformed t) = None"

text \<open>The transport object, as far as the hook reads and drives it.\<close>

record transport =
  pc_user :: uid
  pc_room :: room_id
  signalingState :: signaling_state
  localDescription :: "sdp option"
  remoteDescription :: "sdp option"
  connectionState :: connection_state
  senders :: "track list"
  iceCalls :: "candidate list"
  iceApplied :: "candidate list"

text \<open>
  \<open>pc_user\<close> and \<open>pc_room\<close> are the \<open>userId\<close> and \<open>roomId\<close> that the four callbacks installed
  by \<open>createPeerConnection\<close> close over. \<open>iceCalls\<close> lists every candidate handed to
  \<open>addIceCandidate\<close>, \<open>iceApplied\<close> those it accepted.
\<close>

record channel =
  ch_label :: string
  ch_ordered :: bool
  ch_pc :: handle
  ch_user :: "uid option"
  readyState :: ready_state
  sent :: "wire list"

text \<open>\<open>ch_user\<close> is the \<open>userId\<close> the callbacks of \<open>setupDataChannel\<close> close over, once installed.\<close>

datatype level = Info | Warn | Error

text \<open>\<open>socket.emit\<close>, by event name.\<close>

datatype emit =
  EmitOffer room_id sdp uid
| EmitAnswer room_id sdp uid
| EmitIce room_id candidate uid
| EmitRequestOffer room_id
| EmitJoinRoom room_id

text \<open>The arguments of the hook: \<open>useWebRTC(roomId, localStream, isHost)\<close>.\<close>

record props =
  roomId :: room_id
  localStream :: "track list option"
  isHost :: bool

record hook =
  remoteStream :: "nat option"
  connectedUsers :: "uid list"
  peerConnections :: "(uid \<times> handle) list"
  dataChannels :: "(uid \<times> handle) list"
  inputCallback :: bool
  pendingCandidates :: "(uid \<times> candidate list) list"
  isInitiator :: bool
  pcs :: "handle \<Rightarrow> transport"
  next_pc :: handle
  chans :: "handle \<Rightarrow> channel"
  next_chan :: handle
  outbox :: "emit list"
  delivered :: "(InputEvent \<times> uid) list"
  logs :: "(level \<times> string) list"

text \<open>
  The first seven fields are the hook's own state and refs. \<open>pcs\<close> and \<open>chans\<close> are the
  browser's objects, \<open>outbox\<close> what was emitted on the socket, \<open>delivered\<close> the calls made
  to the registered input callback, \<open>logs\<close> the console.
\<close>

definition new_transport :: "uid \<Rightarrow> room_id \<Rightarrow> transport" where
  "new_transport u r =
     \<lparr>pc_user = u, pc_room = r, signalingState = Stable, localDescription = None,
      remoteDescription = None, connectionState = New, senders = [],
      iceCalls = [], iceApplied = []\<rparr>"

definition new_channel :: "string \<Rightarrow> bool \<Rightarrow> handle \<Rightarrow> channel" where
  "new_channel l ord h =
     \<lparr>ch_label = l, ch_ordered = ord, ch_pc = h, ch_user = None,
      readyState = ChConnecting, sent = []\<rparr>"

definition init :: hook where
  "init =
     \<lparr>remoteStream = None, connectedUsers = [], peerConnections = [], dataChannels = [],
      inputCallback = False, pendingCandidates = [], isInitiator = False,
      pcs = (\<lambda>_. new_transport [] []), next_pc = 0,
      chans = (\<lambda>_. new_channel [] False 0), next_chan = 0,
      outbox = [], delivered = [], logs = []\<rparr>"

definition console :: "level \<Rightarrow> string \<Rightarrow> hook \<Rightarrow> hook" where
  "console l m s = s\<lparr>logs := logs s @ [(l, m)]\<rparr>"

definition socket_emit :: "emit \<Rightarrow> hook \<Rightarrow> hook" where
  "socket_emit m s = s\<lparr>outbox := outbox s @ [m]\<rparr>"

section \<open>The browser's side of a transport\<close>

text \<open>
  How the browser answers during one run of a handler: whether \<open>createOffer\<close> and
  \<open>createAnswer\<close> produce a description (and which), whether installing a description
  succeeds, and which candidates \<open>addIceCandidate\<close> accepts. A call also fails when the
  signalling state does not allow it.
\<close>

record ext =
  offer_made :: "string option"
  answer_made :: "string option"
  setLocal_ok :: bool
  setRemote_ok :: bool
  addCand_ok :: "candidate \<Rightarrow> bool"

definition pc_createOffer :: "ext \<Rightarrow> transport \<Rightarrow> sdp option" where
  "pc_createOffer x pc =
     (if signalingState pc = SigClosed then None
      else map_option (\<lambda>b. \<lparr>sdp_kind = Offer, sdp_body = b\<rparr>) (offer_made x))"

definition pc_createAnswer :: "ext \<Rightarrow> transport \<Rightarrow> sdp option" where
  "pc_createAnswer x pc =
     (if signalingState pc = HaveRemoteOffer \<or> signalingState pc = HaveLocalPranswer
      then map_option (\<lambda>b. \<lparr>sdp_kind = Answer, sdp_body = b\<rparr>) (answer_made x)
      else None)"

fun local_next :: "sdp_type \<Rightarrow> signaling_state \<Rightarrow> signaling_state option" where
  "local_next Offer Stable = Some HaveLocalOffer"
| "local_next Offer HaveLocalOffer = Some HaveLocalOffer"
| "local_next Answer HaveRemoteOffer = Some Stable"
| "local_next Answer HaveLocalPranswer = Some Stable"
| "local_next _ _ = None"

fun remote_next :: "sdp_type \<Rightarrow> signaling_state \<Rightarrow> signaling_state option" where
  "remote_next Offer Stable = Some HaveRemoteOffer"
| "remote_next Offer HaveRemoteOffer = Some HaveRemoteOffer"
| "remote_next Answer HaveLocalOffer = Some Stable"
| "remote_next Answer HaveRemotePranswer = Some Stable"
| "remote_next _ _ = None"

definition pc_setLocalDescription :: "ext \<Rightarrow> sdp \<Rightarrow> transport \<Rightarrow> transport option" where
  "pc_setLocalDescription x d pc =
     (if setLocal_ok x
      then map_option (\<lambda>st. pc\<lparr>signalingState := st, localDescription := Some d\<rparr>)
             (local_next (sdp_kind d) (signalingState pc))
      else None)"

definition pc_setRemoteDescription :: "ext \<Rightarrow> sdp \<Rightarrow> transport \<Rightarrow> transport option" where
  "pc_setRemoteDescription x d pc =
     (if setRemote_ok x
      then map_option (\<lambda>st. pc\<lparr>signalingState := st, remoteDescription := Some d\<rparr>)
             (remote_next (sdp_kind d) (signalingState pc))
      else None)"

text \<open>The result is whether the call returned normally, and the transport afterwards.\<close>

definition pc_addIceCandidate :: "ext \<Rightarrow> candidate \<Rightarrow> transport \<Rightarrow> bool \<times> transport" where
  "pc_addIceCandidate x c pc =
     (let pc1 = pc\<lparr>iceCalls := iceCalls pc @ [c]\<rparr>
      in if addCand_ok x c \<and> remoteDescription pc \<noteq> None
         then (True, pc1\<lparr>iceApplied := iceApplied pc1 @ [c]\<rparr>)
         else (False, pc1))"

section \<open>The hook\<close>

definition setupDataChannel :: "handle \<Rightarrow> uid \<Rightarrow> hook \<Rightarrow> hook" where
  "setupDataChannel c userId s =
     s\<lparr>dataChannels := AList.update userId c (dataChannels s),
       chans := (chans s)(c := (chans s c)\<lparr>ch_user := Some userId\<rparr>)\<rparr>"

definition addTracks :: "track list option \<Rightarrow> transport \<Rightarrow> transport" where
  "addTracks ls pc = (case ls of None \<Rightarrow> pc | Some ts \<Rightarrow> pc\<lparr>senders := senders pc @ ts\<rparr>)"

definition createPeerConnection :: "props \<Rightarrow> uid \<Rightarrow> hook \<Rightarrow> handle \<times> hook" where
  "createPeerConnection p userId s =
     (case map_of (peerConnections s) userId of
        Some h \<Rightarrow> (h, s)
      | None \<Rightarrow>
          let h = next_pc s;
              s1 = s\<lparr>pcs := (pcs s)(h := new_transport userId (roomId p)), next_pc := Suc h\<rparr>;
              s2 = s1\<lparr>peerConnections := AList.update userId h (peerConnections s1)\<rparr>;
              s3 = (if map_of (pendingCandidates s2) userId = None
                    then s2\<lparr>pendingCandidates := AList.update userId [] (pendingCandidates s2)\<rparr>
                    else s2);
              s4 = s3\<lparr>pcs := (pcs s3)(h := addTracks (localStream p) (pcs s3 h))\<rparr>
          in (h, s4))"

text \<open>\<open>pendingCandidatesRef.current.get(userId) || []\<close>\<close>

definition pending_of :: "uid \<Rightarrow> hook \<Rightarrow> candidate list" where
  "pending_of userId s =
     (case map_of (pendingCandidates s) userId of None \<Rightarrow> [] | Some cs \<Rightarrow> cs)"

text \<open>
  The loop \<open>for (const candidate of pendingCandidates)\<close> of \<open>handleOffer\<close> and
  \<open>handleAnswer\<close>: each candidate is tried, a failure is logged and the loop goes on.
\<close>

fun addPendingCandidates :: "ext \<Rightarrow> handle \<Rightarrow> candidate list \<Rightarrow> hook \<Rightarrow> hook" where
  "addPendingCandidates x h [] s = s"
| "addPendingCandidates x h (c # cs) s =
     (let (ok, pc1) = pc_addIceCandidate x c (pcs s h);
          s1 = s\<lparr>pcs := (pcs s)(h := pc1)\<rparr>
      in addPendingCandidates x h cs
           (if ok then s1 else console Error ''Error adding pending candidate:'' s1))"

text \<open>
  The three lines \<open>createOffer\<close>, \<open>setLocalDescription(offer)\<close>, \<open>socket.emit('offer', ...)\<close>
  that \<open>handleUserConnected\<close>, \<open>handleSendOffer\<close> and \<open>startCall\<close> share. \<open>None\<close>: one of
  the two calls threw, and nothing was changed.
\<close>

definition createAndSendOffer :: "ext \<Rightarrow> props \<Rightarrow> handle \<Rightarrow> uid \<Rightarrow> hook \<Rightarrow> hook option" where
  "createAndSendOffer x p h targetUserId s =
     (case pc_createOffer x (pcs s h) of
        None \<Rightarrow> None
      | Some offer \<Rightarrow>
          (case pc_setLocalDescription x offer (pcs s h) of
             None \<Rightarrow> None
           | Some pc1 \<Rightarrow>
               Some (socket_emit (EmitOffer (roomId p) offer targetUserId)
                       (s\<lparr>pcs := (pcs s)(h := pc1)\<rparr>))))"

definition handleUserConnected :: "ext \<Rightarrow> props \<Rightarrow> uid \<Rightarrow> hook \<Rightarrow> hook" where
  "handleUserConnected x p userId s =
     (let s0 = console Info ''User connected, initiating call with:'' s
      in if isHost p
         then (let (h, s1) = createPeerConnection p userId (s0\<lparr>isInitiator := True\<rparr>)
               in case createAndSendOffer x p h userId s1 of
                    Some s2 \<Rightarrow> s2
                  | None \<Rightarrow> console Error ''Error creating offer:'' s1)
         else socket_emit (EmitRequestOffer (roomId p))
                (console Info ''Guest requesting offer from host'' s0))"

definition handleOffer :: "ext \<Rightarrow> props \<Rightarrow> sdp \<Rightarrow> uid \<Rightarrow> hook \<Rightarrow> hook" where
  "handleOffer x p offer senderId s =
     (let s0 = console Info ''Received offer from:'' s;
          userId = senderId;
          (h, s1) = createPeerConnection p userId s0;
          s2 = s1\<lparr>isInitiator := False\<rparr>
      in if signalingState (pcs s2 h) \<noteq> Stable
         then console Warn ''Peer connection not in stable state:'' s2
         else
           (case pc_setRemoteDescription x offer (pcs s2 h) of
              None \<Rightarrow> console Error ''Error handling offer:'' s2
            | Some pc1 \<Rightarrow>
                (let s3 = s2\<lparr>pcs := (pcs s2)(h := pc1)\<rparr>
                 in case pc_createAnswer x pc1 of
                      None \<Rightarrow> console Error ''Error handling offer:'' s3
                    | Some answer \<Rightarrow>
                        (case pc_setLocalDescription x answer pc1 of
                           None \<Rightarrow> console Error ''Error handling offer:'' s3
                         | Some pc2 \<Rightarrow>
                             (let s4 = socket_emit (EmitAnswer (roomId p) answer userId)
                                         (s3\<lparr>pcs := (pcs s3)(h := pc2)\<rparr>);
                                  s5 = addPendingCandidates x h (pending_of userId s4) s4
                              in s5\<lparr>pendingCandidates :=
                                       AList.update userId [] (pendingCandidates s5)\<rparr>)))))"

definition addConnectedUser :: "uid \<Rightarrow> uid list \<Rightarrow> uid list" where
  "addConnectedUser userId prev = (if userId \<in> set prev then prev else prev @ [userId])"

definition handleAnswer :: "ext \<Rightarrow> props \<Rightarrow> sdp \<Rightarrow> uid \<Rightarrow> hook \<Rightarrow> hook" where
  "handleAnswer x p answer senderId s =
     (let s0 = console Info ''Received answer from:'' s;
          userId = senderId
      in case map_of (peerConnections s0) userId of
           None \<Rightarrow> console Error ''Peer connection not found for user:'' s0
         | Some h \<Rightarrow>
             if signalingState (pcs s0 h) \<noteq> HaveLocalOffer
             then console Warn ''Wrong state for answer:'' s0
             else
               (case pc_setRemoteDescription x answer (pcs s0 h) of
                  None \<Rightarrow> console Error ''Error handling answer:'' s0
                | Some pc1 \<Rightarrow>
                    (let s1 = s0\<lparr>pcs := (pcs s0)(h := pc1)\<rparr>;
                         s2 = addPendingCandidates x h (pending_of userId s1) s1;
                         s3 = s2\<lparr>pendingCandidates :=
                                   AList.update userId [] (pendingCandidates s2)\<rparr>
                     in s3\<lparr>connectedUsers := addConnectedUser userId (connectedUsers s3)\<rparr>)))"

text \<open>\<open>candidates.push(data.candidate); pendingCandidatesRef.current.set(userId, candidates)\<close>\<close>

definition bufferCandidate :: "uid \<Rightarrow> candidate \<Rightarrow> hook \<Rightarrow> hook" where
  "bufferCandidate userId c s =
     s\<lparr>pendingCandidates := AList.update userId (pending_of userId s @ [c]) (pendingCandidates s)\<rparr>"

definition handleIceCandidate :: "ext \<Rightarrow> props \<Rightarrow> candidate \<Rightarrow> uid \<Rightarrow> hook \<Rightarrow> hook" where
  "handleIceCandidate x p c senderId s =
     (let userId = senderId
      in case map_of (peerConnections s) userId of
           None \<Rightarrow>
             bufferCandidate userId c
               (console Warn ''Peer connection not ready, buffering candidate'' s)
         | Some h \<Rightarrow>
             if remoteDescription (pcs s h) \<noteq> None
             then (let (ok, pc1) = pc_addIceCandidate x c (pcs s h);
                       s1 = s\<lparr>pcs := (pcs s)(h := pc1)\<rparr>
                   in if ok then s1 else console Error ''Error adding ICE candidate:'' s1)
             else bufferCandidate userId c
                    (console Warn ''Remote description not set, buffering candidate'' s))"

definition handleSendOffer :: "ext \<Rightarrow> props \<Rightarrow> uid \<Rightarrow> hook \<Rightarrow> hook" where
  "handleSendOffer x p requesterId s =
     (let s0 = console Info ''Host sending offer to requester:'' s
      in if \<not> isHost p then s0
         else (let (h, s1) = createPeerConnection p requesterId s0
               in case createAndSendOffer x p h requesterId s1 of
                    Some s2 \<Rightarrow> s2
                  | None \<Rightarrow> console Error ''Error creating offer:'' s1))"

text \<open>\<open>pc.createDataChannel(label, { ordered })\<close>: a new channel object of that transport.\<close>

definition createDataChannel :: "handle \<Rightarrow> string \<Rightarrow> bool \<Rightarrow> hook \<Rightarrow> handle \<times> hook" where
  "createDataChannel h l ord s =
     (next_chan s,
      s\<lparr>chans := (chans s)(next_chan s := new_channel l ord h), next_chan := Suc (next_chan s)\<rparr>)"

text \<open>
  \<open>userId || 'broadcast'\<close>: an absent and an empty id both give the target
  \<open>'broadcast'\<close>. \<open>startCall\<close> has no \<open>try\<close>: when the offer cannot be made or installed
  the promise rejects, after the record and the channel have been made.
\<close>

definition startCall :: "ext \<Rightarrow> props \<Rightarrow> uid option \<Rightarrow> hook \<Rightarrow> hook" where
  "startCall x p userId s =
     (let targetUserId = (case userId of None \<Rightarrow> ''broadcast''
                          | Some u \<Rightarrow> if u = [] then ''broadcast'' else u);
          (h, s1) = createPeerConnection p targetUserId s;
          s2 = (if isHost p \<and> map_of (dataChannels s1) targetUserId = None
                then (let (dc, s') = createDataChannel h ''input'' True s1
                      in setupDataChannel dc targetUserId s')
                else s1)
      in case createAndSendOffer x p h targetUserId s2 of
           Some s3 \<Rightarrow> s3
         | None \<Rightarrow> s2)"

definition dc_send :: "wire \<Rightarrow> handle \<Rightarrow> hook \<Rightarrow> hook" where
  "dc_send w dc s = s\<lparr>chans := (chans s)(dc := (chans s dc)\<lparr>sent := sent (chans s dc) @ [w]\<rparr>)\<rparr>"

definition send_if_open :: "wire \<Rightarrow> handle \<Rightarrow> hook \<Rightarrow> hook" where
  "send_if_open w dc s = (if readyState (chans s dc) = ChOpen then dc_send w dc s else s)"

text \<open>\<open>dataChannelsRef.current.forEach(...)\<close>: every entry of the channel map, in order.\<close>

definition broadcastInput :: "wire \<Rightarrow> hook \<Rightarrow> hook" where
  "broadcastInput w s = fold (\<lambda>(u, dc). send_if_open w dc) (dataChannels s) s"

text \<open>\<open>if (targetUserId)\<close> is false for an absent and for an empty id.\<close>

definition sendInputEvent :: "InputEvent \<Rightarrow> uid option \<Rightarrow> hook \<Rightarrow> hook" where
  "sendInputEvent event targetUserId s =
     (case targetUserId of
        None \<Rightarrow> broadcastInput (JSON_stringify event) s
      | Some t \<Rightarrow>
          if t = [] then broadcastInput (JSON_stringify event) s
          else (case map_of (dataChannels s) t of
                  Some dc \<Rightarrow> send_if_open (JSON_stringify event) dc s
                | None \<Rightarrow> s))"

definition setInputCallback :: "hook \<Rightarrow> hook" where
  "setInputCallback s = s\<lparr>inputCallback := True\<rparr>"

subsection \<open>Callbacks installed on a transport and on a channel\<close>

definition pc_onicecandidate :: "handle \<Rightarrow> candidate option \<Rightarrow> hook \<Rightarrow> hook" where
  "pc_onicecandidate h c s =
     (case c of
        Some cand \<Rightarrow> socket_emit (EmitIce (pc_room (pcs s h)) cand (pc_user (pcs s h))) s
      | None \<Rightarrow> s)"

definition pc_ontrack :: "handle \<Rightarrow> nat \<Rightarrow> hook \<Rightarrow> hook" where
  "pc_ontrack h stream s =
     (console Info ''Received remote track from'' s)\<lparr>remoteStream := Some stream\<rparr>"

definition pc_ondatachannel :: "handle \<Rightarrow> handle \<Rightarrow> hook \<Rightarrow> hook" where
  "pc_ondatachannel h c s =
     setupDataChannel c (pc_user (pcs s h)) (console Info ''Data channel received from'' s)"

definition pc_onconnectionstatechange :: "handle \<Rightarrow> hook \<Rightarrow> hook" where
  "pc_onconnectionstatechange h s =
     (let userId = pc_user (pcs s h);
          s0 = console Info ''Connection state with'' s
      in if connectionState (pcs s h) = Disconnected \<or> connectionState (pcs s h) = Failed
         then s0\<lparr>peerConnections := AList.delete userId (peerConnections s0),
                 dataChannels := AList.delete userId (dataChannels s0),
                 pendingCandidates := AList.delete userId (pendingCandidates s0),
                 connectedUsers := filter (\<lambda>id. id \<noteq> userId) (connectedUsers s0)\<rparr>
         else s0)"

definition channel_onopen :: "uid \<Rightarrow> hook \<Rightarrow> hook" where
  "channel_onopen userId s = console Info ''Data channel opened for user'' s"

definition channel_onclose :: "uid \<Rightarrow> hook \<Rightarrow> hook" where
  "channel_onclose userId s =
     (let s0 = console Info ''Data channel closed for user'' s
      in s0\<lparr>dataChannels := AList.delete userId (dataChannels s0)\<rparr>)"

definition channel_onmessage :: "uid \<Rightarrow> wire \<Rightarrow> hook \<Rightarrow> hook" where
  "channel_onmessage userId w s =
     (case JSON_parse w of
        None \<Rightarrow> console Error ''Error parsing input event:'' s
      | Some inputEvent \<Rightarrow>
          if inputCallback s then s\<lparr>delivered := delivered s @ [(inputEvent, userId)]\<rparr> else s)"

definition channel_onerror :: "uid \<Rightarrow> hook \<Rightarrow> hook" where
  "channel_onerror userId s = console Error ''Data channel error for user'' s"

subsection \<open>Everything that can happen to one hook\<close>

text \<open>
  What the relay sends to a client. The last id of an offer, answer or candidate is the
  \<open>targetUserId\<close> field, which no handler of the hook reads.
\<close>

datatype server_msg =
  UserConnected uid
| SendOffer uid
| OfferMsg sdp uid uid
| AnswerMsg sdp uid uid
| IceMsg candidate uid uid

datatype event =
  Socket server_msg
| CallCreatePeerConnection uid
| CallStartCall "uid option"
| CallSendInputEvent InputEvent "uid option"
| CallSetInputCallback
| PcIceCandidate handle "candidate option"
| PcTrack handle nat
| PcDataChannel handle string bool
| PcConnectionState handle connection_state
| ChOpened handle
| ChClosedEv handle
| ChMessage handle wire
| ChError handle

text \<open>The socket listeners are registered by an effect that returns at once when \<open>roomId\<close> is empty.\<close>

fun on_socket :: "ext \<Rightarrow> props \<Rightarrow> server_msg \<Rightarrow> hook \<Rightarrow> hook" where
  "on_socket x p (UserConnected u) s = handleUserConnected x p u s"
| "on_socket x p (SendOffer u) s = handleSendOffer x p u s"
| "on_socket x p (OfferMsg d sender t) s = handleOffer x p d sender s"
| "on_socket x p (AnswerMsg d sender t) s = handleAnswer x p d sender s"
| "on_socket x p (IceMsg c sender t) s = handleIceCandidate x p c sender s"

definition on_channel :: "handle \<Rightarrow> (uid \<Rightarrow> hook \<Rightarrow> hook) \<Rightarrow> hook \<Rightarrow> hook" where
  "on_channel c f s = (case ch_user (chans s c) of None \<Rightarrow> s | Some u \<Rightarrow> f u s)"

definition set_readyState :: "handle \<Rightarrow> ready_state \<Rightarrow> hook \<Rightarrow> hook" where
  "set_readyState c r s = s\<lparr>chans := (chans s)(c := (chans s c)\<lparr>readyState := r\<rparr>)\<rparr>"

fun step :: "ext \<Rightarrow> props \<Rightarrow> event \<Rightarrow> hook \<Rightarrow> hook" where
  "step x p (Socket m) s = (if roomId p = [] then s else on_socket x p m s)"
| "step x p (CallCreatePeerConnection u) s = snd (createPeerConnection p u s)"
| "step x p (CallStartCall u) s = startCall x p u s"
| "step x p (CallSendInputEvent e t) s = sendInputEvent e t s"
| "step x p CallSetInputCallback s = setInputCallback s"
| "step x p (PcIceCandidate h c) s = (if h < next_pc s then pc_onicecandidate h c s else s)"
| "step x p (PcTrack h st) s = (if h < next_pc s then pc_ontrack h st s else s)"
| "step x p (PcDataChannel h l ord) s =
     (if h < next_pc s
      then (let (c, s1) = createDataChannel h l ord s
            in pc_ondatachannel h c (set_readyState c ChOpen s1))
      else s)"
| "step x p (PcConnectionState h cs) s =
     (if h < next_pc s
      then pc_onconnectionstatechange h
             (s\<lparr>pcs := (pcs s)(h := (pcs s h)\<lparr>connectionState := cs\<rparr>)\<rparr>)
      else s)"
| "step x p (ChOpened c) s =
     (if c < next_chan s then on_channel c channel_onopen (set_readyState c ChOpen s) else s)"
| "step x p (ChClosedEv c) s =
     (if c < next_chan s then on_channel c channel_onclose (set_readyState c ChClosed s) else s)"
| "step x p (ChMessage c w) s =
     (if c < next_chan s then on_channel c (\<lambda>u. channel_onmessage u w) s else s)"
| "step x p (ChError c) s = (if c < next_chan s then on_channel c channel_onerror s else s)"

text \<open>A run from the initial state: each event comes with the browser's answers and the props of that render.\<close>

definition run :: "(ext \<times> props \<times> event) list \<Rightarrow> hook" where
  "run evs = fold (\<lambda>(x, p, e). step x p e) evs init"

section \<open>The guest page's input handlers\<close>

text \<open>
  A JavaScript number: a finite value, or one of the three a division can also give
  (\<open>0/0\<close>, \<open>1/0\<close>, \<open>-1/0\<close>, when the overlay has no width or height). The handlers below
  start from the two percentages \<open>x\<close> and \<open>y\<close> already computed from the mouse event and
  the overlay's rectangle.
\<close>

datatype jsnum = Fin rat | NaN | PosInf | NegInf

fun js_le :: "jsnum \<Rightarrow> jsnum \<Rightarrow> bool" where
  "js_le NaN _ = False"
| "js_le _ NaN = False"
| "js_le (Fin a) (Fin b) = (a \<le> b)"
| "js_le NegInf _ = True"
| "js_le _ PosInf = True"
| "js_le _ _ = False"

text \<open>\<open>x >= 0 && x <= 100 && y >= 0 && y <= 100\<close>\<close>

definition within_bounds :: "jsnum \<Rightarrow> jsnum \<Rightarrow> bool" where
  "within_bounds x y =
     (js_le (Fin 0) x \<and> js_le x (Fin 100) \<and> js_le (Fin 0) y \<and> js_le y (Fin 100))"

text \<open>A number that is neither \<open>NaN\<close> nor an infinity.\<close>

fun is_finite :: "jsnum \<Rightarrow> bool" where
  "is_finite (Fin a) = True"
| "is_finite _ = False"

record guest_page =
  lastMousePos :: "jsnum \<times> jsnum"
  webrtc :: hook

definition blank_event :: "input_type \<Rightarrow> int \<Rightarrow> InputEvent" where
  "blank_event ty now =
     \<lparr>ev_type = ty, ev_x = None, ev_y = None, ev_button = None, ev_key = None,
      ev_code = None, ev_deltaY = None, ev_timestamp = now\<rparr>"

text \<open>
  \<open>sendEvent(type, data)\<close> builds \<open>{ type, timestamp: Date.now(), ...data }\<close> and hands it to
  \<open>sendInputEvent\<close> with no target. \<open>data\<close> is the function that sets the fields it carries.
\<close>

definition sendEvent :: "input_type \<Rightarrow> (InputEvent \<Rightarrow> InputEvent) \<Rightarrow> int \<Rightarrow> guest_page \<Rightarrow> guest_page" where
  "sendEvent ty data now g = g\<lparr>webrtc := sendInputEvent (data (blank_event ty now)) None (webrtc g)\<rparr>"

text \<open>A number that passed the bounds test is finite, and is what the event then carries.\<close>

fun pointer_data :: "jsnum \<Rightarrow> jsnum \<Rightarrow> InputEvent \<Rightarrow> InputEvent" where
  "pointer_data (Fin a) (Fin b) e = e\<lparr>ev_x := Some a, ev_y := Some b\<rparr>"
| "pointer_data _ _ e = e"

definition handleMouseMove :: "jsnum \<Rightarrow> jsnum \<Rightarrow> int \<Rightarrow> guest_page \<Rightarrow> guest_page" where
  "handleMouseMove x y now g =
     (if within_bounds x y
      then sendEvent Mousemove (pointer_data x y) now (g\<lparr>lastMousePos := (x, y)\<rparr>)
      else g)"

definition handleMouseDown :: "jsnum \<Rightarrow> jsnum \<Rightarrow> int \<Rightarrow> int \<Rightarrow> guest_page \<Rightarrow> guest_page" where
  "handleMouseDown x y button now g =
     (if within_bounds x y
      then sendEvent Mousedown (\<lambda>e. (pointer_data x y e)\<lparr>ev_button := Some button\<rparr>) now g
      else g)"

definition handleMouseUp :: "jsnum \<Rightarrow> jsnum \<Rightarrow> int \<Rightarrow> int \<Rightarrow> guest_page \<Rightarrow> guest_page" where
  "handleMouseUp x y button now g =
     (if within_bounds x y
      then sendEvent Mouseup (\<lambda>e. (pointer_data x y e)\<lparr>ev_button := Some button\<rparr>) now g
      else g)"

definition handleClick :: "jsnum \<Rightarrow> jsnum \<Rightarrow> int \<Rightarrow> int \<Rightarrow> guest_page \<Rightarrow> guest_page" where
  "handleClick x y button now g =
     (if within_bounds x y
      then sendEvent Click (\<lambda>e. (pointer_data x y e)\<lparr>ev_button := Some button\<rparr>) now g
      else g)"

definition handleWheel :: "jsnum \<Rightarrow> jsnum \<Rightarrow> rat \<Rightarrow> int \<Rightarrow> guest_page \<Rightarrow> guest_page" where
  "handleWheel x y deltaY now g =
     (if within_bounds x y
      then sendEvent Wheel (\<lambda>e. e\<lparr>ev_deltaY := Some deltaY\<rparr>) now g
      else g)"

definition handleKeyDown :: "string \<Rightarrow> string \<Rightarrow> int \<Rightarrow> guest_page \<Rightarrow> guest_page" where
  "handleKeyDown k c now g = sendEvent Keydown (\<lambda>e. e\<lparr>ev_key := Some k, ev_code := Some c\<rparr>) now g"

definition handleKeyUp :: "string \<Rightarrow> string \<Rightarrow> int \<Rightarrow> guest_page \<Rightarrow> guest_page" where
  "handleKeyUp k c now g = sendEvent Keyup (\<lambda>e. e\<lparr>ev_key := Some k, ev_code := Some c\<rparr>) now g"

section \<open>The relay\<close>

text \<open>
  \<open>members r\<close> is what socket.io holds for room \<open>r\<close>: the sockets that joined it.
  \<open>rooms\<close> is the module's own \<open>Map\<close> from a room to its host.
  \<open>socket.to(room).emit(...)\<close> reaches every socket of the room but the sending one.
\<close>

record relay =
  members :: "room_id \<Rightarrow> uid list"
  rooms :: "(room_id \<times> uid) list"

definition socket_join :: "uid \<Rightarrow> room_id \<Rightarrow> relay \<Rightarrow> relay" where
  "socket_join sid r st =
     (if sid \<in> set (members st r) then st
      else st\<lparr>members := (members st)(r := members st r @ [sid])\<rparr>)"

definition socket_to :: "uid \<Rightarrow> room_id \<Rightarrow> server_msg \<Rightarrow> relay \<Rightarrow> (uid \<times> server_msg) list" where
  "socket_to sid r m st = map (\<lambda>u. (u, m)) (filter (\<lambda>u. u \<noteq> sid) (members st r))"

text \<open>One client message, from socket \<open>sid\<close>: the relay afterwards, and who is sent what.\<close>

fun on_client :: "uid \<Rightarrow> emit \<Rightarrow> relay \<Rightarrow> relay \<times> (uid \<times> server_msg) list" where
  "on_client sid (EmitJoinRoom r) st =
     (let st1 = socket_join sid r st;
          st2 = (if map_of (rooms st1) r = None
                 then st1\<lparr>rooms := AList.update r sid (rooms st1)\<rparr>
                 else st1)
      in (st2, socket_to sid r (UserConnected sid) st2))"
| "on_client sid (EmitRequestOffer r) st = (st, socket_to sid r (SendOffer sid) st)"
| "on_client sid (EmitOffer r d t) st = (st, socket_to sid r (OfferMsg d sid t) st)"
| "on_client sid (EmitAnswer r d t) st = (st, socket_to sid r (AnswerMsg d sid t) st)"
| "on_client sid (EmitIce r c t) st = (st, socket_to sid r (IceMsg c sid t) st)"

text \<open>On a disconnect socket.io takes the socket out of every room; the handler drops the rooms it hosted.\<close>

definition on_disconnect :: "uid \<Rightarrow> relay \<Rightarrow> relay" where
  "on_disconnect sid st =
     st\<lparr>members := (\<lambda>r. filter (\<lambda>u. u \<noteq> sid) (members st r)),
        rooms := filter (\<lambda>(r, hostId). hostId \<noteq> sid) (rooms st)\<rparr>"

section \<open>Observations and sample inputs\<close>

text \<open>The transport of the Remote Connection Record kept for a participant, if there is one.\<close>

definition record_of :: "uid \<Rightarrow> hook \<Rightarrow> transport option" where
  "record_of u s = map_option (pcs s) (map_of (peerConnections s) u)"

definition ice_calls_of :: "uid \<Rightarrow> hook \<Rightarrow> candidate list" where
  "ice_calls_of u s = (case record_of u s of None \<Rightarrow> [] | Some pc \<Rightarrow> iceCalls pc)"

definition ice_applied_of :: "uid \<Rightarrow> hook \<Rightarrow> candidate list" where
  "ice_applied_of u s = (case record_of u s of None \<Rightarrow> [] | Some pc \<Rightarrow> iceApplied pc)"

text \<open>A record exists for the participant and its remote description is installed.\<close>

definition remote_installed :: "uid \<Rightarrow> hook \<Rightarrow> bool" where
  "remote_installed u s =
     (case record_of u s of None \<Rightarrow> False | Some pc \<Rightarrow> remoteDescription pc \<noteq> None)"

text \<open>The record for the participant is absent, or is in sub-state \<open>stable\<close>.\<close>

definition stable_or_absent :: "uid \<Rightarrow> hook \<Rightarrow> bool" where
  "stable_or_absent u s =
     (case record_of u s of None \<Rightarrow> True | Some pc \<Rightarrow> signalingState pc = Stable)"

text \<open>An answer from the participant gets installed: the record is in \<open>have-local-offer\<close> and the browser accepts it.\<close>

definition answer_applied :: "ext \<Rightarrow> sdp \<Rightarrow> uid \<Rightarrow> hook \<Rightarrow> bool" where
  "answer_applied x d u s =
     (case record_of u s of
        None \<Rightarrow> False
      | Some pc \<Rightarrow> signalingState pc = HaveLocalOffer \<and> pc_setRemoteDescription x d pc \<noteq> None)"

definition is_answer :: "emit \<Rightarrow> bool" where
  "is_answer m = (case m of EmitAnswer r d t \<Rightarrow> True | _ \<Rightarrow> False)"

definition host_props :: props where
  "host_props = \<lparr>roomId = ''482913'', localStream = None, isHost = True\<rparr>"

definition guest_props :: props where
  "guest_props = \<lparr>roomId = ''482913'', localStream = None, isHost = False\<rparr>"

text \<open>A browser that accepts everything, and one whose \<open>createAnswer\<close> rejects.\<close>

definition browser_ok :: ext where
  "browser_ok =
     \<lparr>offer_made = Some ''v=0 offer'', answer_made = Some ''v=0 answer'',
      setLocal_ok = True, setRemote_ok = True, addCand_ok = (\<lambda>c. True)\<rparr>"

definition browser_no_answer :: ext where
  "browser_no_answer = browser_ok\<lparr>answer_made := None\<rparr>"

definition an_offer :: sdp where
  "an_offer = \<lparr>sdp_kind = Offer, sdp_body = ''v=0 offer''\<rparr>"

definition an_answer :: sdp where
  "an_answer = \<lparr>sdp_kind = Answer, sdp_body = ''v=0 answer''\<rparr>"

text \<open>A host that called a guest and has taken the guest's answer.\<close>

definition connected_host :: hook where
  "connected_host =
     handleAnswer browser_ok host_props an_answer ''guest''
       (startCall browser_ok host_props (Some ''guest'') init)"

text \<open>A host that called a guest and waits for the answer.\<close>

definition offering_host :: hook where
  "offering_host = startCall browser_ok host_props (Some ''guest'') init"

text \<open>A host that is told of the same guest twice and gets three answers from it.\<close>

definition sample_trace :: "(ext \<times> props \<times> event) list" where
  "sample_trace =
     [(browser_ok, host_props, Socket (UserConnected ''guest'')),
      (browser_ok, host_props, Socket (AnswerMsg an_answer ''guest'' ''host'')),
      (browser_ok, host_props, Socket (AnswerMsg an_answer ''guest'' ''host'')),
      (browser_ok, host_props, Socket (UserConnected ''guest'')),
      (browser_ok, host_props, Socket (AnswerMsg an_answer ''guest'' ''host''))]"

text \<open>A guest that called the host on its own, and relays with two and three members in one room.\<close>

definition offering_guest :: hook where
  "offering_guest = startCall browser_ok guest_props (Some ''host'') init"

definition relay_init :: relay where
  "relay_init = \<lparr>members = (\<lambda>r. []), rooms = []\<rparr>"

definition room_of_two :: relay where
  "room_of_two =
     fst (on_client ''guest'' (EmitJoinRoom ''482913'')
       (fst (on_client ''host'' (EmitJoinRoom ''482913'') relay_init)))"

definition room_of_three :: relay where
  "room_of_three = fst (on_client ''guest2'' (EmitJoinRoom ''482913'') room_of_two)"

text \<open>
  The candidate buffer of a participant has been drained between two states: the record
  has its remote description, every candidate that was buffered has been handed to
  \<open>addIceCandidate\<close> in order, after whatever had been handed before, those the browser
  accepts have been applied, and the buffer is empty.
\<close>

definition drained :: "ext \<Rightarrow> uid \<Rightarrow> hook \<Rightarrow> hook \<Rightarrow> bool" where
  "drained x u s s' =
     (remote_installed u s'
      \<and> ice_calls_of u s' = ice_calls_of u s @ pending_of u s
      \<and> ice_applied_of u s' = ice_applied_of u s @ filter (addCand_ok x) (pending_of u s)
      \<and> map_of (pendingCandidates s') u = Some [])"

text \<open>
  An offer from the participant gets answered: the record is absent or \<open>stable\<close>, the
  description is an offer the browser installs, and the browser makes and installs an answer.
\<close>

definition offer_answered :: "ext \<Rightarrow> sdp \<Rightarrow> uid \<Rightarrow> hook \<Rightarrow> bool" where
  "offer_answered x d u s =
     (stable_or_absent u s \<and> sdp_kind d = Offer \<and> setRemote_ok x
      \<and> answer_made x \<noteq> None \<and> setLocal_ok x)"

text \<open>A guest that got a candidate from the host before any offer.\<close>

definition buffered_guest :: hook where
  "buffered_guest = handleIceCandidate browser_ok guest_props ''candidate-1'' ''host'' init"

text \<open>A browser that refuses one candidate, and a host that got a candidate before the answer.\<close>

definition browser_picky :: ext where
  "browser_picky = browser_ok\<lparr>addCand_ok := (\<lambda>c. c \<noteq> ''candidate-1'')\<rparr>"

definition buffered_host :: hook where
  "buffered_host = handleIceCandidate browser_ok host_props ''candidate-2'' ''guest'' offering_host"

text \<open>
  A guest page whose hook has answered the host and been handed the host's input channel,
  and a click far outside the overlay.
\<close>

definition watching_guest :: guest_page where
  "watching_guest =
     \<lparr>lastMousePos = (Fin 0, Fin 0),
      webrtc = step browser_ok guest_props (PcDataChannel 0 ''input'' True)
                 (handleOffer browser_ok guest_props an_offer ''host'' init)\<rparr>"

definition far_event :: InputEvent where
  "far_event = (blank_event Click 1000)\<lparr>ev_x := Some 150, ev_y := Some (- 20), ev_button := Some 0\<rparr>"

text \<open>
  A host that, connected to one guest, has called a second one; and a guest page whose
  hook holds no channel.
\<close>

definition offering_second :: hook where
  "offering_second = startCall browser_ok host_props (Some ''guest2'') connected_host"

definition idle_guest :: guest_page where
  "idle_guest = \<lparr>lastMousePos = (Fin 0, Fin 0), webrtc = init\<rparr>"

section \<open>Shared lemmas\<close>

lemma createPeerConnection_existing:
  "map_of (peerConnections s) u = Some h \<Longrightarrow> createPeerConnection p u s = (h, s)"
  by (simp add: createPeerConnection_def)

lemma createPeerConnection_registers:
  "map_of (peerConnections (snd (createPeerConnection p u s))) u
     = Some (fst (createPeerConnection p u s))"
  by (simp add: createPeerConnection_def Let_def update_conv' split: option.splits)

lemma delete_absent: "map_of (AList.delete k al) k = None"
  by (simp add: delete_conv')

lemma connected_host_maps:
  "peerConnections connected_host = [(''guest'', 0)]"
  "dataChannels connected_host = [(''guest'', 0)]"
  "pendingCandidates connected_host = [(''guest'', [])]"
  "connectedUsers connected_host = [''guest'']"
  "next_pc connected_host = 1"
  "pc_user (pcs connected_host 0) = ''guest''"
  by (simp_all add: connected_host_def handleAnswer_def startCall_def createPeerConnection_def
      createDataChannel_def setupDataChannel_def createAndSendOffer_def pc_createOffer_def
      pc_setLocalDescription_def pc_setRemoteDescription_def console_def socket_emit_def
      new_transport_def addTracks_def pending_of_def addConnectedUser_def
      host_props_def browser_ok_def an_answer_def init_def Let_def)

lemma addPendingCandidates_eq:
  "addPendingCandidates x h cs s =
     s\<lparr>pcs := (pcs s)(h := (pcs s h)\<lparr>iceCalls := iceCalls (pcs s h) @ cs,
            iceApplied := iceApplied (pcs s h)
               @ filter (\<lambda>c. addCand_ok x c \<and> remoteDescription (pcs s h) \<noteq> None) cs\<rparr>),
       logs := logs s @ map (\<lambda>c. (Error, ''Error adding pending candidate:''))
                 (filter (\<lambda>c. \<not> (addCand_ok x c \<and> remoteDescription (pcs s h) \<noteq> None)) cs)\<rparr>"
proof (induction cs arbitrary: s)
  case Nil
  show ?case by simp
next
  case (Cons c cs)
  show ?case
  proof (cases "addCand_ok x c \<and> remoteDescription (pcs s h) \<noteq> None")
    case True
    define s' where "s' = s\<lparr>pcs := (pcs s)(h := (pcs s h)\<lparr>iceCalls := iceCalls (pcs s h) @ [c],
       iceApplied := iceApplied (pcs s h) @ [c]\<rparr>)\<rparr>"
    have "addPendingCandidates x h (c # cs) s = addPendingCandidates x h cs s'"
      using True by (simp add: pc_addIceCandidate_def Let_def s'_def)
    also note Cons.IH [of s']
    finally show ?thesis
      using True by (simp add: s'_def cong: if_cong)
  next
    case False
    define s' where "s' = s\<lparr>pcs := (pcs s)(h := (pcs s h)\<lparr>iceCalls := iceCalls (pcs s h) @ [c]\<rparr>),
       logs := logs s @ [(Error, ''Error adding pending candidate:'')]\<rparr>"
    have "addPendingCandidates x h (c # cs) s = addPendingCandidates x h cs s'"
      using False by (auto simp add: pc_addIceCandidate_def Let_def s'_def console_def)
    also note Cons.IH [of s']
    finally show ?thesis
      using False by (auto simp add: s'_def pc_addIceCandidate_def Let_def console_def cong: if_cong)
  qed
qed


lemma connectedUsers_createPeerConnection:
  "connectedUsers (snd (createPeerConnection p u s)) = connectedUsers s"
  by (simp add: createPeerConnection_def Let_def split: option.splits)

lemma connectedUsers_createAndSendOffer:
  "createAndSendOffer x p h t s = Some s' \<Longrightarrow> connectedUsers s' = connectedUsers s"
  by (auto simp add: createAndSendOffer_def socket_emit_def split: option.splits)

lemma connectedUsers_handleUserConnected:
  "connectedUsers (handleUserConnected x p u s) = connectedUsers s"
proof (cases "isHost p")
  case False
  then show ?thesis by (simp add: handleUserConnected_def console_def socket_emit_def)
next
  case True
  obtain h s1 where c: "createPeerConnection p u
      (console Info ''User connected, initiating call with:'' s\<lparr>isInitiator := True\<rparr>) = (h, s1)"
    by (cases "createPeerConnection p u
      (console Info ''User connected, initiating call with:'' s\<lparr>isInitiator := True\<rparr>)")
  have s1: "connectedUsers s1 = connectedUsers s"
    using connectedUsers_createPeerConnection [of p u
      "console Info ''User connected, initiating call with:'' s\<lparr>isInitiator := True\<rparr>"] c
    by (simp add: console_def)
  show ?thesis
    using True c s1
    by (auto simp add: handleUserConnected_def Let_def console_def
        dest: connectedUsers_createAndSendOffer split: option.splits)
qed

lemma connectedUsers_handleSendOffer:
  "connectedUsers (handleSendOffer x p u s) = connectedUsers s"
proof (cases "isHost p")
  case False
  then show ?thesis by (simp add: handleSendOffer_def console_def)
next
  case True
  obtain h s1 where c: "createPeerConnection p u
      (console Info ''Host sending offer to requester:'' s) = (h, s1)"
    by (cases "createPeerConnection p u (console Info ''Host sending offer to requester:'' s)")
  have s1: "connectedUsers s1 = connectedUsers s"
    using connectedUsers_createPeerConnection [of p u
      "console Info ''Host sending offer to requester:'' s"] c
    by (simp add: console_def)
  show ?thesis
    using True c s1
    by (auto simp add: handleSendOffer_def Let_def console_def
        dest: connectedUsers_createAndSendOffer split: option.splits)
qed

lemma connectedUsers_startCall:
  "connectedUsers (startCall x p u s) = connectedUsers s"
proof -
  define t where "t = (case u of None \<Rightarrow> ''broadcast'' | Some v \<Rightarrow> if v = [] then ''broadcast'' else v)"
  obtain h s1 where c: "createPeerConnection p t s = (h, s1)"
    by (cases "createPeerConnection p t s")
  have s1: "connectedUsers s1 = connectedUsers s"
    using connectedUsers_createPeerConnection [of p t s] c by simp
  show ?thesis
    using c s1 unfolding startCall_def t_def [symmetric]
    by (auto simp add: Let_def createDataChannel_def setupDataChannel_def
        dest!: connectedUsers_createAndSendOffer split: option.splits)
qed

lemma connectedUsers_handleOffer:
  "connectedUsers (handleOffer x p d u s) = connectedUsers s"
proof -
  obtain h s1 where c: "createPeerConnection p u (console Info ''Received offer from:'' s) = (h, s1)"
    by (cases "createPeerConnection p u (console Info ''Received offer from:'' s)")
  have s1: "connectedUsers s1 = connectedUsers s"
    using connectedUsers_createPeerConnection [of p u "console Info ''Received offer from:'' s"] c
    by (simp add: console_def)
  show ?thesis
    using c s1
    by (simp add: handleOffer_def Let_def console_def socket_emit_def addPendingCandidates_eq
        split: option.splits)
qed

lemma connectedUsers_handleIceCandidate:
  "connectedUsers (handleIceCandidate x p c u s) = connectedUsers s"
  by (simp add: handleIceCandidate_def Let_def console_def bufferCandidate_def
      pc_addIceCandidate_def split: option.splits)

lemma connectedUsers_handleAnswer:
  "connectedUsers (handleAnswer x p d u s)
     = (if answer_applied x d u s then addConnectedUser u (connectedUsers s) else connectedUsers s)"
  by (simp add: handleAnswer_def answer_applied_def record_of_def Let_def console_def
      addPendingCandidates_eq split: option.splits)

lemma handleAnswer_not_applied:
  "\<not> answer_applied x d u s \<Longrightarrow> (handleAnswer x p d u s)\<lparr>logs := logs s\<rparr> = s"
  by (auto simp add: handleAnswer_def answer_applied_def record_of_def Let_def console_def
      split: option.splits)

lemma handleAnswer_wrong_state:
  "map_of (peerConnections s) u = Some h \<Longrightarrow> signalingState (pcs s h) \<noteq> HaveLocalOffer \<Longrightarrow>
   handleAnswer x p d u s
     = console Warn ''Wrong state for answer:'' (console Info ''Received answer from:'' s)"
  by (simp add: handleAnswer_def Let_def console_def)

lemma handleAnswer_installs:
  "answer_applied x d u s \<Longrightarrow>
   map_option remoteDescription (record_of u (handleAnswer x p d u s)) = Some (Some d)"
  by (auto simp add: handleAnswer_def answer_applied_def record_of_def Let_def console_def
      addPendingCandidates_eq pc_setRemoteDescription_def update_conv'
      split: option.splits if_splits)

lemma distinct_addConnectedUser:
  "distinct prev \<Longrightarrow> distinct (addConnectedUser u prev)"
  by (simp add: addConnectedUser_def)

lemma connectedUsers_send_fold:
  "connectedUsers (fold (\<lambda>(u, dc). send_if_open w dc) al s) = connectedUsers s"
  by (induction al arbitrary: s) (auto simp add: send_if_open_def dc_send_def)

lemma connectedUsers_sendInputEvent:
  "connectedUsers (sendInputEvent e t s) = connectedUsers s"
  by (simp add: sendInputEvent_def broadcastInput_def connectedUsers_send_fold
      send_if_open_def dc_send_def split: option.splits)

lemma distinct_on_socket:
  "distinct (connectedUsers s) \<Longrightarrow> distinct (connectedUsers (on_socket x p m s))"
  by (cases m)
     (simp_all add: connectedUsers_handleUserConnected connectedUsers_handleSendOffer
        connectedUsers_handleOffer connectedUsers_handleAnswer connectedUsers_handleIceCandidate
        distinct_addConnectedUser)

lemma distinct_step:
  "distinct (connectedUsers s) \<Longrightarrow> distinct (connectedUsers (step x p e s))"
proof (cases e)
  case (Socket m)
  then show "distinct (connectedUsers s) \<Longrightarrow> ?thesis" by (simp add: distinct_on_socket)
next
  case (PcConnectionState h cs)
  then show "distinct (connectedUsers s) \<Longrightarrow> ?thesis"
    by (simp add: pc_onconnectionstatechange_def console_def Let_def)
qed (simp_all add: connectedUsers_createPeerConnection connectedUsers_startCall
      connectedUsers_sendInputEvent setInputCallback_def pc_onicecandidate_def socket_emit_def
      pc_ontrack_def console_def pc_ondatachannel_def setupDataChannel_def createDataChannel_def
      set_readyState_def on_channel_def channel_onopen_def channel_onclose_def
      channel_onmessage_def channel_onerror_def Let_def split: option.splits)

lemma distinct_fold_step:
  "distinct (connectedUsers s) \<Longrightarrow>
   distinct (connectedUsers (fold (\<lambda>(x, p, e). step x p e) evs s))"
  by (induction evs arbitrary: s) (auto simp add: distinct_step)

lemma offering_host_maps:
  "peerConnections offering_host = [(''guest'', 0)]"
  "connectedUsers offering_host = []"
  "signalingState (pcs offering_host 0) = HaveLocalOffer"
  "outbox offering_host = [EmitOffer ''482913'' an_offer ''guest'']"
  by (simp_all add: offering_host_def startCall_def createPeerConnection_def
      createDataChannel_def setupDataChannel_def createAndSendOffer_def pc_createOffer_def
      pc_setLocalDescription_def socket_emit_def new_transport_def addTracks_def
      host_props_def browser_ok_def an_offer_def init_def Let_def)

lemma connected_host_more:
  "signalingState (pcs connected_host 0) = Stable"
  by (simp_all add: connected_host_def handleAnswer_def startCall_def createPeerConnection_def
      createDataChannel_def setupDataChannel_def createAndSendOffer_def pc_createOffer_def
      pc_setLocalDescription_def pc_setRemoteDescription_def console_def socket_emit_def
      new_transport_def addTracks_def pending_of_def addConnectedUser_def
      host_props_def browser_ok_def an_answer_def init_def Let_def)

lemma offering_guest_maps:
  "peerConnections offering_guest = [(''host'', 0)]"
  "connectedUsers offering_guest = []"
  "dataChannels offering_guest = []"
  "signalingState (pcs offering_guest 0) = HaveLocalOffer"
  "localDescription (pcs offering_guest 0) = Some an_offer"
  "remoteDescription (pcs offering_guest 0) = None"
  "outbox offering_guest = [EmitOffer ''482913'' an_offer ''host'']"
  by (simp_all add: offering_guest_def startCall_def createPeerConnection_def
      createAndSendOffer_def pc_createOffer_def
      pc_setLocalDescription_def socket_emit_def new_transport_def addTracks_def
      guest_props_def browser_ok_def an_offer_def init_def Let_def)

lemma offering_host_more:
  "localDescription (pcs offering_host 0) = Some an_offer"
  "remoteDescription (pcs offering_host 0) = None"
  by (simp_all add: offering_host_def startCall_def createPeerConnection_def
      createDataChannel_def setupDataChannel_def createAndSendOffer_def pc_createOffer_def
      pc_setLocalDescription_def socket_emit_def new_transport_def addTracks_def
      host_props_def browser_ok_def an_offer_def init_def Let_def)

lemma room_of_two_members:
  "members room_of_two ''482913'' = [''host'', ''guest'']"
  "rooms room_of_two = [(''482913'', ''host'')]"
  by (simp_all add: room_of_two_def relay_init_def socket_join_def Let_def)

lemma room_of_three_members:
  "members room_of_three ''482913'' = [''host'', ''guest'', ''guest2'']"
  by (simp_all add: room_of_three_def room_of_two_members socket_join_def Let_def)

lemma handleOffer_dropped:
  assumes "map_of (peerConnections s) u = Some h" and "signalingState (pcs s h) \<noteq> Stable"
  shows "handleOffer x p d u s
           = console Warn ''Peer connection not in stable state:''
               ((console Info ''Received offer from:'' s)\<lparr>isInitiator := False\<rparr>)"
  using assms by (simp add: handleOffer_def createPeerConnection_def console_def Let_def)

lemma handleIceCandidate_buffer:
  "pendingCandidates (handleIceCandidate x p c u s)
     = (if remote_installed u s then pendingCandidates s
        else AList.update u (pending_of u s @ [c]) (pendingCandidates s))"
  by (simp add: handleIceCandidate_def remote_installed_def record_of_def bufferCandidate_def
      console_def pending_of_def pc_addIceCandidate_def Let_def split: option.splits)

lemma handleIceCandidate_calls:
  "ice_calls_of u (handleIceCandidate x p c u s)
     = (if remote_installed u s then ice_calls_of u s @ [c] else ice_calls_of u s)"
  by (simp add: handleIceCandidate_def remote_installed_def ice_calls_of_def record_of_def
      bufferCandidate_def console_def pc_addIceCandidate_def Let_def split: option.splits)

lemma handleIceCandidate_applied:
  "ice_applied_of u (handleIceCandidate x p c u s)
     = (if remote_installed u s \<and> addCand_ok x c then ice_applied_of u s @ [c]
        else ice_applied_of u s)"
  by (simp add: handleIceCandidate_def remote_installed_def ice_applied_of_def record_of_def
      bufferCandidate_def console_def pc_addIceCandidate_def Let_def split: option.splits)

lemma handleAnswer_drains:
  "answer_applied x d u s \<Longrightarrow> drained x u s (handleAnswer x p d u s)"
  by (auto simp add: handleAnswer_def answer_applied_def drained_def remote_installed_def
      ice_calls_of_def ice_applied_of_def record_of_def pending_of_def Let_def console_def
      addPendingCandidates_eq pc_setRemoteDescription_def update_conv'
      split: option.splits if_splits)


lemma handleOffer_answered:
  assumes c: "createPeerConnection p u (console Info ''Received offer from:'' s) = (h, s1)"
    and st: "signalingState (pcs s1 h) = Stable"
    and k: "sdp_kind d = Offer" and r: "setRemote_ok x" and l: "setLocal_ok x"
    and a: "answer_made x = Some b"
  shows "handleOffer x p d u s =
     (let ans = \<lparr>sdp_kind = Answer, sdp_body = b\<rparr>;
          pc2 = (pcs s1 h)\<lparr>signalingState := HaveRemoteOffer, remoteDescription := Some d\<rparr>
                          \<lparr>signalingState := Stable, localDescription := Some ans\<rparr>;
          s4 = socket_emit (EmitAnswer (roomId p) ans u)
                 (s1\<lparr>isInitiator := False, pcs := (pcs s1)(h := pc2)\<rparr>);
          s5 = addPendingCandidates x h (pending_of u s4) s4
      in s5\<lparr>pendingCandidates := AList.update u [] (pendingCandidates s5)\<rparr>)"
  using c st k r l a
  by (simp add: handleOffer_def Let_def pc_setRemoteDescription_def pc_createAnswer_def
      pc_setLocalDescription_def socket_emit_def)

lemma createPeerConnection_shape:
  "createPeerConnection p u s = (h, s1) \<Longrightarrow>
     map_of (peerConnections s1) u = Some h
     \<and> pending_of u s1 = pending_of u s
     \<and> iceCalls (pcs s1 h) = ice_calls_of u s
     \<and> iceApplied (pcs s1 h) = ice_applied_of u s
     \<and> (signalingState (pcs s1 h) = Stable) = stable_or_absent u s"
  by (auto simp add: createPeerConnection_def Let_def update_conv' pending_of_def
      ice_calls_of_def ice_applied_of_def stable_or_absent_def record_of_def
      new_transport_def addTracks_def split: option.splits if_splits)

lemma handleOffer_drains:
  assumes "offer_answered x d u s"
  shows "drained x u s (handleOffer x p d u s)"
proof -
  obtain h s1 where c: "createPeerConnection p u (console Info ''Received offer from:'' s) = (h, s1)"
    by (cases "createPeerConnection p u (console Info ''Received offer from:'' s)")
  from createPeerConnection_shape [OF c]
  have sh: "map_of (peerConnections s1) u = Some h" "pending_of u s1 = pending_of u s"
     "iceCalls (pcs s1 h) = ice_calls_of u s" "iceApplied (pcs s1 h) = ice_applied_of u s"
     "(signalingState (pcs s1 h) = Stable) = stable_or_absent u s"
    by (simp_all add: console_def pending_of_def ice_calls_of_def ice_applied_of_def
        stable_or_absent_def record_of_def)
  from assms obtain b where b: "answer_made x = Some b"
    by (auto simp add: offer_answered_def)
  from assms sh have st: "signalingState (pcs s1 h) = Stable"
    by (simp add: offer_answered_def)
  have eq: "handleOffer x p d u s =
     (let ans = \<lparr>sdp_kind = Answer, sdp_body = b\<rparr>;
          pc2 = (pcs s1 h)\<lparr>signalingState := HaveRemoteOffer, remoteDescription := Some d\<rparr>
                          \<lparr>signalingState := Stable, localDescription := Some ans\<rparr>;
          s4 = socket_emit (EmitAnswer (roomId p) ans u)
                 (s1\<lparr>isInitiator := False, pcs := (pcs s1)(h := pc2)\<rparr>);
          s5 = addPendingCandidates x h (pending_of u s4) s4
      in s5\<lparr>pendingCandidates := AList.update u [] (pendingCandidates s5)\<rparr>)"
    using assms by (intro handleOffer_answered [OF c st _ _ _ b]) (simp_all add: offer_answered_def)
  have p4: "pending_of u (socket_emit (EmitAnswer (roomId p) \<lparr>sdp_kind = Answer, sdp_body = b\<rparr> u)
                 (s1\<lparr>isInitiator := False, pcs := (pcs s1)(h := (pcs s1 h)\<lparr>signalingState := HaveRemoteOffer, remoteDescription := Some d\<rparr>
                          \<lparr>signalingState := Stable, localDescription := Some \<lparr>sdp_kind = Answer, sdp_body = b\<rparr>\<rparr>)\<rparr>)) = pending_of u s"
    using sh(2) by (simp add: pending_of_def socket_emit_def)
  show ?thesis
    unfolding eq Let_def p4
    using sh
    by (simp add: drained_def remote_installed_def ice_calls_of_def ice_applied_of_def
        record_of_def addPendingCandidates_eq socket_emit_def update_conv')
qed


lemma handleOffer_cases:
  assumes c: "createPeerConnection p u (console Info ''Received offer from:'' s) = (h, s1)"
  shows "handleOffer x p d u s =
     (if signalingState (pcs s1 h) \<noteq> Stable
      then console Warn ''Peer connection not in stable state:'' (s1\<lparr>isInitiator := False\<rparr>)
      else
        (case pc_setRemoteDescription x d (pcs s1 h) of
           None \<Rightarrow> console Error ''Error handling offer:'' (s1\<lparr>isInitiator := False\<rparr>)
         | Some pc1 \<Rightarrow>
             (case pc_createAnswer x pc1 of
                None \<Rightarrow> console Error ''Error handling offer:''
                          (s1\<lparr>isInitiator := False, pcs := (pcs s1)(h := pc1)\<rparr>)
              | Some answer \<Rightarrow>
                  (case pc_setLocalDescription x answer pc1 of
                     None \<Rightarrow> console Error ''Error handling offer:''
                               (s1\<lparr>isInitiator := False, pcs := (pcs s1)(h := pc1)\<rparr>)
                   | Some pc2 \<Rightarrow>
                       (let s4 = socket_emit (EmitAnswer (roomId p) answer u)
                                   (s1\<lparr>isInitiator := False, pcs := (pcs s1)(h := pc2)\<rparr>);
                            s5 = addPendingCandidates x h (pending_of u s4) s4
                        in s5\<lparr>pendingCandidates :=
                                 AList.update u [] (pendingCandidates s5)\<rparr>)))))"
  using c by (simp add: handleOffer_def Let_def split: option.splits)

lemma setRemote_keeps_calls:
  "pc_setRemoteDescription x d pc = Some pc1 \<Longrightarrow> iceCalls pc1 = iceCalls pc"
  by (auto simp add: pc_setRemoteDescription_def split: if_splits)

lemma answered_steps:
  assumes "signalingState pc = Stable" and "pc_setRemoteDescription x d pc = Some pc1"
    and "pc_createAnswer x pc1 = Some a" and "pc_setLocalDescription x a pc1 = Some pc2"
  shows "sdp_kind d = Offer \<and> setRemote_ok x \<and> answer_made x \<noteq> None \<and> setLocal_ok x"
  using assms
  by (cases "sdp_kind d")
     (auto simp add: pc_setRemoteDescription_def pc_createAnswer_def pc_setLocalDescription_def
        split: if_splits)

lemma handleOffer_undrained:
  assumes n: "\<not> offer_answered x d u s"
  shows "pending_of u (handleOffer x p d u s) = pending_of u s
         \<and> ice_calls_of u (handleOffer x p d u s) = ice_calls_of u s"
proof -
  obtain h s1 where c: "createPeerConnection p u (console Info ''Received offer from:'' s) = (h, s1)"
    by (cases "createPeerConnection p u (console Info ''Received offer from:'' s)")
  from createPeerConnection_shape [OF c]
  have sh: "map_of (peerConnections s1) u = Some h" "pending_of u s1 = pending_of u s"
     "iceCalls (pcs s1 h) = ice_calls_of u s"
     "(signalingState (pcs s1 h) = Stable) = stable_or_absent u s"
    by (simp_all add: console_def pending_of_def ice_calls_of_def ice_applied_of_def
        stable_or_absent_def record_of_def)
  have keep: "\<And>l m f. pending_of u (console l m (s1\<lparr>isInitiator := False, pcs := f\<rparr>)) = pending_of u s"
    using sh(2) by (simp add: pending_of_def console_def)
  have keep': "\<And>l m. pending_of u (console l m (s1\<lparr>isInitiator := False\<rparr>)) = pending_of u s"
    using sh(2) by (simp add: pending_of_def console_def)
  have calls: "\<And>l m. ice_calls_of u (console l m (s1\<lparr>isInitiator := False\<rparr>)) = ice_calls_of u s"
    using sh(1,3) by (simp add: ice_calls_of_def record_of_def console_def)
  have calls': "\<And>l m pc1. iceCalls pc1 = iceCalls (pcs s1 h) \<Longrightarrow>
      ice_calls_of u (console l m (s1\<lparr>isInitiator := False, pcs := (pcs s1)(h := pc1)\<rparr>))
        = ice_calls_of u s"
    using sh(1,3) by (simp add: ice_calls_of_def record_of_def console_def)
  show ?thesis
  proof (cases "signalingState (pcs s1 h) = Stable")
    case False
    then show ?thesis
      by (simp add: handleOffer_cases [OF c] keep' calls)
  next
    case st: True
    show ?thesis
    proof (cases "pc_setRemoteDescription x d (pcs s1 h)")
      case None
      with st show ?thesis
        by (simp add: handleOffer_cases [OF c] keep' calls)
    next
      case (Some pc1)
      note r = Some
      show ?thesis
      proof (cases "pc_createAnswer x pc1")
        case None
        with st r show ?thesis
          by (simp add: handleOffer_cases [OF c] keep calls' setRemote_keeps_calls [OF r])
      next
        case (Some a)
        note a = Some
        show ?thesis
        proof (cases "pc_setLocalDescription x a pc1")
          case None
          with st r a show ?thesis
            by (simp add: handleOffer_cases [OF c] keep calls' setRemote_keeps_calls [OF r])
        next
          case (Some pc2)
          from answered_steps [OF st r a Some] st sh(4) n
          show ?thesis by (simp add: offer_answered_def)
        qed
      qed
    qed
  qed
qed

lemma buffered_guest_maps:
  "peerConnections buffered_guest = []"
  "pendingCandidates buffered_guest = [(''host'', [''candidate-1''])]"
  "next_pc buffered_guest = 0"
  by (simp_all add: buffered_guest_def handleIceCandidate_def bufferCandidate_def console_def
      pending_of_def init_def Let_def)

lemma buffered_host_maps:
  "peerConnections buffered_host = [(''guest'', 0)]"
  "pendingCandidates buffered_host = [(''guest'', [''candidate-2''])]"
  "signalingState (pcs buffered_host 0) = HaveLocalOffer"
  "remoteDescription (pcs buffered_host 0) = None"
  "iceCalls (pcs buffered_host 0) = []"
  by (simp_all add: buffered_host_def handleIceCandidate_def bufferCandidate_def console_def
      pending_of_def offering_host_def startCall_def createPeerConnection_def
      createDataChannel_def setupDataChannel_def createAndSendOffer_def pc_createOffer_def
      pc_setLocalDescription_def socket_emit_def new_transport_def addTracks_def
      host_props_def browser_ok_def init_def Let_def)

lemma handleOffer_no_answer:
  "handleOffer browser_no_answer guest_props an_offer ''host'' buffered_guest
     = console Error ''Error handling offer:''
         ((snd (createPeerConnection guest_props ''host''
                 (console Info ''Received offer from:'' buffered_guest)))
            \<lparr>isInitiator := False,
              pcs := (pcs buffered_guest)(0 := (new_transport ''host'' ''482913'')
                        \<lparr>signalingState := HaveRemoteOffer, remoteDescription := Some an_offer\<rparr>)\<rparr>)"
  by (simp add: handleOffer_def createPeerConnection_def buffered_guest_maps console_def
      pc_setRemoteDescription_def pc_createAnswer_def browser_no_answer_def browser_ok_def
      an_offer_def guest_props_def addTracks_def new_transport_def Let_def
      buffered_guest_def handleIceCandidate_def bufferCandidate_def init_def pending_of_def)

lemma send_if_open_chans:
  "readyState (chans (send_if_open w dc s) c) = readyState (chans s c)"
  "sent (chans (send_if_open w dc s) c)
     = sent (chans s c) @ (if dc = c \<and> readyState (chans s c) = ChOpen then [w] else [])"
  by (simp_all add: send_if_open_def dc_send_def)

lemma send_fold_chans:
  "readyState (chans (fold (\<lambda>(u, dc). send_if_open w dc) al s) c) = readyState (chans s c)
   \<and> sent (chans (fold (\<lambda>(u, dc). send_if_open w dc) al s) c)
       = sent (chans s c)
         @ (if readyState (chans s c) = ChOpen then replicate (count_list (map snd al) c) w else [])"
proof (induction al arbitrary: s)
  case Nil
  show ?case by simp
next
  case (Cons a al)
  obtain u dc where a: "a = (u, dc)" by (cases a)
  have "fold (\<lambda>(u, dc). send_if_open w dc) (a # al) s
          = fold (\<lambda>(u, dc). send_if_open w dc) al (send_if_open w dc s)"
    by (simp add: a)
  then show ?case
    using Cons.IH [of "send_if_open w dc s"]
    by (simp add: a send_if_open_chans replicate_app_Cons_same)
qed

lemma sendInputEvent_broadcast:
  "sent (chans (sendInputEvent e None s) c)
     = sent (chans s c)
       @ (if readyState (chans s c) = ChOpen
          then replicate (count_list (map snd (dataChannels s)) c) (JSON_stringify e) else [])"
  by (simp add: sendInputEvent_def broadcastInput_def send_fold_chans)

lemma within_bounds_finite:
  "within_bounds x y \<Longrightarrow>
   \<exists>a c. x = Fin a \<and> y = Fin c \<and> 0 \<le> a \<and> a \<le> 100 \<and> 0 \<le> c \<and> c \<le> 100"
  by (cases x; cases y) (simp_all add: within_bounds_def)


lemma watching_guest_maps:
  "dataChannels (webrtc watching_guest) = [(''host'', 0)]"
  "readyState (chans (webrtc watching_guest) 0) = ChOpen"
  "sent (chans (webrtc watching_guest) 0) = []"
  by (simp_all add: watching_guest_def handleOffer_def createPeerConnection_def console_def
      pc_setRemoteDescription_def pc_createAnswer_def pc_setLocalDescription_def socket_emit_def
      pending_of_def createDataChannel_def set_readyState_def pc_ondatachannel_def
      setupDataChannel_def new_channel_def new_transport_def addTracks_def
      guest_props_def browser_ok_def an_offer_def init_def Let_def)

lemma connected_host_channel:
  "next_chan connected_host = 1"
  "ch_user (chans connected_host 0) = Some ''guest''"
  "delivered connected_host = []"
  by (simp_all add: connected_host_def handleAnswer_def startCall_def createPeerConnection_def
      createDataChannel_def setupDataChannel_def createAndSendOffer_def pc_createOffer_def
      pc_setLocalDescription_def pc_setRemoteDescription_def console_def socket_emit_def
      new_transport_def new_channel_def addTracks_def pending_of_def addConnectedUser_def
      host_props_def browser_ok_def an_answer_def init_def Let_def)

lemma sample_trace_view: "connectedUsers (run sample_trace) = [''guest'']"
  by (simp add: run_def sample_trace_def handleUserConnected_def handleAnswer_def
      createPeerConnection_def createAndSendOffer_def pc_createOffer_def
      pc_setLocalDescription_def pc_setRemoteDescription_def console_def socket_emit_def
      new_transport_def addTracks_def pending_of_def addConnectedUser_def
      host_props_def browser_ok_def an_answer_def init_def Let_def)

lemma connectedUsers_handleAnswer_explicit:
  "connectedUsers (handleAnswer x p d u s)
     = (if answer_applied x d u s
        then (if u \<in> set (connectedUsers s) then connectedUsers s else connectedUsers s @ [u])
        else connectedUsers s)"
  by (simp add: connectedUsers_handleAnswer addConnectedUser_def)

lemma handleAnswer_adds_sender:
  "answer_applied x d u s \<Longrightarrow> u \<in> set (connectedUsers (handleAnswer x p d u s))"
  by (simp add: connectedUsers_handleAnswer_explicit)

lemma handleAnswer_view_set:
  "set (connectedUsers (handleAnswer x p d u s))
     = (if answer_applied x d u s then insert u (set (connectedUsers s))
        else set (connectedUsers s))"
  by (auto simp add: connectedUsers_handleAnswer_explicit)

lemma offering_second_maps:
  "map_of (peerConnections offering_second) ''guest2'' = Some (Suc 0)"
  "connectedUsers offering_second = [''guest'']"
  "signalingState (pcs offering_second (Suc 0)) = HaveLocalOffer"
  by (simp_all add: offering_second_def connected_host_def handleAnswer_def startCall_def
      createPeerConnection_def createDataChannel_def setupDataChannel_def
      createAndSendOffer_def pc_createOffer_def pc_setLocalDescription_def
      pc_setRemoteDescription_def console_def socket_emit_def new_transport_def addTracks_def
      pending_of_def addConnectedUser_def host_props_def browser_ok_def an_answer_def
      init_def Let_def)

lemma within_bounds_iff:
  "within_bounds x y
     = (\<exists>a c. x = Fin a \<and> y = Fin c \<and> 0 \<le> a \<and> a \<le> 100 \<and> 0 \<le> c \<and> c \<le> 100)"
  by (cases x; cases y) (simp_all add: within_bounds_def)

lemma within_bounds_Fin:
  "within_bounds (Fin a) (Fin c) = (0 \<le> a \<and> a \<le> 100 \<and> 0 \<le> c \<and> c \<le> 100)"
  by (simp add: within_bounds_def)

lemma not_finite_out_of_bounds:
  "\<not> is_finite x \<or> \<not> is_finite y \<Longrightarrow> \<not> within_bounds x y"
  by (cases x; cases y) (simp_all add: within_bounds_def)

lemma idle_guest_click:
  "handleClick (Fin 50) (Fin 25) 0 1000 idle_guest = idle_guest"
  by (simp add: handleClick_def within_bounds_def sendEvent_def sendInputEvent_def
      broadcastInput_def idle_guest_def init_def)


lemma out_of_bounds_nothing:
  "\<not> within_bounds x y \<Longrightarrow>
     handleMouseMove x y now g = g \<and> handleMouseDown x y btn now g = g
     \<and> handleMouseUp x y btn now g = g \<and> handleClick x y btn now g = g
     \<and> handleWheel x y dy now g = g"
  by (simp add: handleMouseMove_def handleMouseDown_def handleMouseUp_def handleClick_def
      handleWheel_def)

lemma in_range_sent:
  assumes "0 \<le> a" "a \<le> 100" "0 \<le> c" "c \<le> 100"
  shows "webrtc (handleMouseMove (Fin a) (Fin c) now g)
           = sendInputEvent ((blank_event Mousemove now)\<lparr>ev_x := Some a, ev_y := Some c\<rparr>)
               None (webrtc g)
         \<and> webrtc (handleMouseDown (Fin a) (Fin c) btn now g)
           = sendInputEvent ((blank_event Mousedown now)
                 \<lparr>ev_x := Some a, ev_y := Some c, ev_button := Some btn\<rparr>) None (webrtc g)
         \<and> webrtc (handleMouseUp (Fin a) (Fin c) btn now g)
           = sendInputEvent ((blank_event Mouseup now)
                 \<lparr>ev_x := Some a, ev_y := Some c, ev_button := Some btn\<rparr>) None (webrtc g)
         \<and> webrtc (handleClick (Fin a) (Fin c) btn now g)
           = sendInputEvent ((blank_event Click now)
                 \<lparr>ev_x := Some a, ev_y := Some c, ev_button := Some btn\<rparr>) None (webrtc g)
         \<and> webrtc (handleWheel (Fin a) (Fin c) dy now g)
           = sendInputEvent ((blank_event Wheel now)\<lparr>ev_deltaY := Some dy\<rparr>) None (webrtc g)"
  using assms
  by (simp add: handleMouseMove_def handleMouseDown_def handleMouseUp_def handleClick_def
      handleWheel_def sendEvent_def within_bounds_Fin)

lemma within_bounds_sent:
  assumes "within_bounds x y"
  shows "\<exists>a c. x = Fin a \<and> y = Fin c \<and> 0 \<le> a \<and> a \<le> 100 \<and> 0 \<le> c \<and> c \<le> 100
           \<and> webrtc (handleMouseMove x y now g)
               = sendInputEvent ((blank_event Mousemove now)\<lparr>ev_x := Some a, ev_y := Some c\<rparr>)
                   None (webrtc g)
           \<and> webrtc (handleMouseDown x y btn now g)
               = sendInputEvent ((blank_event Mousedown now)
                     \<lparr>ev_x := Some a, ev_y := Some c, ev_button := Some btn\<rparr>) None (webrtc g)
           \<and> webrtc (handleMouseUp x y btn now g)
               = sendInputEvent ((blank_event Mouseup now)
                     \<lparr>ev_x := Some a, ev_y := Some c, ev_button := Some btn\<rparr>) None (webrtc g)
           \<and> webrtc (handleClick x y btn now g)
               = sendInputEvent ((blank_event Click now)
                     \<lparr>ev_x := Some a, ev_y := Some c, ev_button := Some btn\<rparr>) None (webrtc g)
           \<and> webrtc (handleWheel x y dy now g)
               = sendInputEvent ((blank_event Wheel now)\<lparr>ev_deltaY := Some dy\<rparr>) None (webrtc g)"
proof -
  from assms obtain a c
    where r: "x = Fin a" "y = Fin c" "0 \<le> a" "a \<le> 100" "0 \<le> c" "c \<le> 100"
    using within_bounds_iff by blast
  from in_range_sent [OF r(3-6), of now g btn dy] r show ?thesis by blast
qed

section \<open>Idempotent record creation\<close>

text \<open>
  C1. When a record already exists for a participant, \<open>createPeerConnection\<close> returns the
  handle of that record and the state exactly as it was: no transport is made and no map
  entry is touched. In particular a second call, with whatever props, returns what the
  first call returned and leaves the state the first call produced.
\<close>

theorem createPeerConnection_idempotent:
  "(map_of (peerConnections s) u = Some h \<longrightarrow> createPeerConnection p u s = (h, s))
   \<and> createPeerConnection p' u (snd (createPeerConnection p u s)) = createPeerConnection p u s"
proof
  show "map_of (peerConnections s) u = Some h \<longrightarrow> createPeerConnection p u s = (h, s)"
    by (simp add: createPeerConnection_existing)
next
  have "createPeerConnection p' u (snd (createPeerConnection p u s))
          = (fst (createPeerConnection p u s), snd (createPeerConnection p u s))"
    by (rule createPeerConnection_existing) (rule createPeerConnection_registers)
  then show "createPeerConnection p' u (snd (createPeerConnection p u s))
               = createPeerConnection p u s"
    by simp
qed

theorem createPeerConnection_idempotent_witness:
  "map_of (peerConnections (snd (createPeerConnection host_props ''guest'' init))) ''guest'' = Some 0
   \<and> createPeerConnection guest_props ''guest'' (snd (createPeerConnection host_props ''guest'' init))
       = (0, snd (createPeerConnection host_props ''guest'' init))"
proof -
  have rec: "map_of (peerConnections (snd (createPeerConnection host_props ''guest'' init)))
               ''guest'' = Some 0"
    by (simp add: createPeerConnection_def init_def Let_def)
  from createPeerConnection_idempotent
    [where s = "snd (createPeerConnection host_props ''guest'' init)" and u = "''guest''"
       and h = 0 and p = guest_props]
  have "createPeerConnection guest_props ''guest''
          (snd (createPeerConnection host_props ''guest'' init))
          = (0, snd (createPeerConnection host_props ''guest'' init))"
    using rec by blast
  with rec show ?thesis by blast
qed

section \<open>Glare\<close>

text \<open>
  C2, as the code has it. Whatever its role, a participant that receives an offer while
  its record for the sender is not in sub-state \<open>stable\<close> (its own offer is outstanding,
  for one) drops the incoming offer: the arrival and a warning are logged, the initiator
  flag is cleared, and nothing else changes. No transport is touched, so its own offer
  stays outstanding; nothing is emitted; the connected-users view is as before.
\<close>

theorem offer_while_not_stable_dropped:
  assumes "map_of (peerConnections s) u = Some h" and "signalingState (pcs s h) \<noteq> Stable"
  shows "handleOffer x p d u s
           = console Warn ''Peer connection not in stable state:''
               ((console Info ''Received offer from:'' s)\<lparr>isInitiator := False\<rparr>)
         \<and> pcs (handleOffer x p d u s) = pcs s
         \<and> outbox (handleOffer x p d u s) = outbox s
         \<and> connectedUsers (handleOffer x p d u s) = connectedUsers s"
  using assms by (simp add: handleOffer_dropped console_def)

theorem offer_while_not_stable_dropped_witness:
  "map_of (peerConnections offering_guest) ''host'' = Some 0
   \<and> signalingState (pcs offering_guest 0) \<noteq> Stable
   \<and> handleOffer browser_ok guest_props an_offer ''host'' offering_guest
       = console Warn ''Peer connection not in stable state:''
           ((console Info ''Received offer from:'' offering_guest)\<lparr>isInitiator := False\<rparr>)
   \<and> pcs (handleOffer browser_ok guest_props an_offer ''host'' offering_guest) = pcs offering_guest
   \<and> outbox (handleOffer browser_ok guest_props an_offer ''host'' offering_guest)
       = outbox offering_guest
   \<and> connectedUsers (handleOffer browser_ok guest_props an_offer ''host'' offering_guest)
       = connectedUsers offering_guest"
proof -
  have a: "map_of (peerConnections offering_guest) ''host'' = Some 0"
    by (simp add: offering_guest_maps)
  have b: "signalingState (pcs offering_guest 0) \<noteq> Stable"
    by (simp add: offering_guest_maps)
  from offer_while_not_stable_dropped [OF a b, of browser_ok guest_props an_offer] a b
  show ?thesis by blast
qed

text \<open>
  C2 as stated fails. Host and guest each call the other, and the relay hands each one the
  other's offer. The guest, whose own offer is outstanding, keeps it and does not take
  the host's: its local description is still its own offer, no remote description is
  installed, no answer is emitted. The host drops the guest's offer likewise, and neither
  side has the other in its connected-users view.
\<close>

theorem glare_both_offers_dropped:
  "snd (on_client ''host'' (EmitOffer ''482913'' an_offer ''guest'') room_of_two)
     = [(''guest'', OfferMsg an_offer ''host'' ''guest'')]
   \<and> snd (on_client ''guest'' (EmitOffer ''482913'' an_offer ''host'') room_of_two)
     = [(''host'', OfferMsg an_offer ''guest'' ''host'')]
   \<and> isHost host_props \<and> \<not> isHost guest_props
   \<and> outbox offering_host = [EmitOffer ''482913'' an_offer ''guest'']
   \<and> outbox offering_guest = [EmitOffer ''482913'' an_offer ''host'']
   \<and> signalingState (pcs offering_guest 0) = HaveLocalOffer
   \<and> signalingState
        (pcs (step browser_ok guest_props (Socket (OfferMsg an_offer ''host'' ''guest'')) offering_guest) 0)
        = HaveLocalOffer
   \<and> localDescription
        (pcs (step browser_ok guest_props (Socket (OfferMsg an_offer ''host'' ''guest'')) offering_guest) 0)
        = Some an_offer
   \<and> remoteDescription
        (pcs (step browser_ok guest_props (Socket (OfferMsg an_offer ''host'' ''guest'')) offering_guest) 0)
        = None
   \<and> filter is_answer
        (outbox (step browser_ok guest_props (Socket (OfferMsg an_offer ''host'' ''guest'')) offering_guest))
        = []
   \<and> filter is_answer
        (outbox (step browser_ok host_props (Socket (OfferMsg an_offer ''guest'' ''host'')) offering_host))
        = []
   \<and> connectedUsers
        (step browser_ok guest_props (Socket (OfferMsg an_offer ''host'' ''guest'')) offering_guest) = []
   \<and> connectedUsers
        (step browser_ok host_props (Socket (OfferMsg an_offer ''guest'' ''host'')) offering_host) = []"
proof -
  have g: "step browser_ok guest_props (Socket (OfferMsg an_offer ''host'' ''guest'')) offering_guest
        = console Warn ''Peer connection not in stable state:''
           ((console Info ''Received offer from:'' offering_guest)\<lparr>isInitiator := False\<rparr>)"
    by (simp add: guest_props_def handleOffer_dropped [where h = 0] offering_guest_maps)
  have h: "step browser_ok host_props (Socket (OfferMsg an_offer ''guest'' ''host'')) offering_host
        = console Warn ''Peer connection not in stable state:''
           ((console Info ''Received offer from:'' offering_host)\<lparr>isInitiator := False\<rparr>)"
    by (simp add: host_props_def handleOffer_dropped [where h = 0] offering_host_maps)
  show ?thesis
    unfolding g h
    by (simp add: console_def offering_guest_maps offering_host_maps room_of_two_members
        socket_to_def is_answer_def host_props_def guest_props_def)
qed

section \<open>Candidate buffering\<close>

text \<open>
  C3, as the code has it. An inbound candidate is appended to the sender's buffer exactly
  when no record exists for the sender or the record has no remote description yet;
  otherwise it is handed to the transport at once. The buffer is drained, every buffered
  candidate tried in order and the buffer emptied whatever the browser says to each one,
  when an answer has been installed, and when an offer has been installed and the answer to
  it has been made, installed and emitted. An offer that does not get that far leaves the
  buffer as it was and tries no candidate.
\<close>

theorem candidate_buffering:
  "pendingCandidates (handleIceCandidate x p c u s)
     = (if remote_installed u s then pendingCandidates s
        else AList.update u (pending_of u s @ [c]) (pendingCandidates s))
   \<and> ice_calls_of u (handleIceCandidate x p c u s)
     = (if remote_installed u s then ice_calls_of u s @ [c] else ice_calls_of u s)
   \<and> (answer_applied x d u s \<longrightarrow> drained x u s (handleAnswer x p d u s))
   \<and> (offer_answered x d u s \<longrightarrow> drained x u s (handleOffer x p d u s))
   \<and> (\<not> offer_answered x d u s \<longrightarrow>
        pending_of u (handleOffer x p d u s) = pending_of u s
        \<and> ice_calls_of u (handleOffer x p d u s) = ice_calls_of u s)"
  by (simp add: handleIceCandidate_buffer handleIceCandidate_calls handleAnswer_drains
      handleOffer_drains handleOffer_undrained)

theorem candidate_buffering_witness:
  "\<not> remote_installed ''host'' init
   \<and> pendingCandidates (handleIceCandidate browser_ok guest_props ''candidate-1'' ''host'' init)
       = [(''host'', [''candidate-1''])]
   \<and> ice_calls_of ''host'' (handleIceCandidate browser_ok guest_props ''candidate-1'' ''host'' init) = []
   \<and> offer_answered browser_picky an_offer ''host'' buffered_guest
   \<and> drained browser_picky ''host'' buffered_guest
        (handleOffer browser_picky guest_props an_offer ''host'' buffered_guest)
   \<and> answer_applied browser_ok an_answer ''guest'' buffered_host
   \<and> drained browser_ok ''guest'' buffered_host
        (handleAnswer browser_ok host_props an_answer ''guest'' buffered_host)"
proof -
  have a: "\<not> remote_installed ''host'' init"
    by (simp add: remote_installed_def record_of_def init_def)
  have ice: "ice_calls_of ''host'' init = []" "pending_of ''host'' init = []"
     "pendingCandidates init = []"
    by (simp_all add: ice_calls_of_def record_of_def pending_of_def init_def)
  have b: "offer_answered browser_picky an_offer ''host'' buffered_guest"
    by (simp add: offer_answered_def stable_or_absent_def record_of_def buffered_guest_maps
        browser_picky_def browser_ok_def an_offer_def)
  have c: "answer_applied browser_ok an_answer ''guest'' buffered_host"
    by (simp add: answer_applied_def record_of_def buffered_host_maps
        pc_setRemoteDescription_def browser_ok_def an_answer_def)
  from candidate_buffering [of browser_ok guest_props "''candidate-1''" "''host''" init] a ice
  have 1: "pendingCandidates (handleIceCandidate browser_ok guest_props ''candidate-1'' ''host'' init)
       = [(''host'', [''candidate-1''])]
     \<and> ice_calls_of ''host'' (handleIceCandidate browser_ok guest_props ''candidate-1'' ''host'' init) = []"
    by simp
  from candidate_buffering [where x = browser_picky and d = an_offer and u = "''host''"
      and s = buffered_guest and p = guest_props] b
  have 2: "drained browser_picky ''host'' buffered_guest
        (handleOffer browser_picky guest_props an_offer ''host'' buffered_guest)"
    by blast
  from candidate_buffering [where x = browser_ok and d = an_answer and u = "''guest''"
      and s = buffered_host and p = host_props] c
  have 3: "drained browser_ok ''guest'' buffered_host
        (handleAnswer browser_ok host_props an_answer ''guest'' buffered_host)"
    by blast
  from a b c 1 2 3 show ?thesis by blast
qed

text \<open>
  C3 as stated fails. A guest holds one buffered candidate from the host; the host's offer
  arrives and is installed, then \<open>createAnswer\<close> rejects. The remote description is
  installed, yet the buffered candidate has not been tried and is still in the buffer.
\<close>

theorem answer_failure_keeps_buffer:
  "pending_of ''host'' buffered_guest = [''candidate-1'']
   \<and> map_option remoteDescription
        (record_of ''host'' (handleOffer browser_no_answer guest_props an_offer ''host'' buffered_guest))
        = Some (Some an_offer)
   \<and> remote_installed ''host''
        (handleOffer browser_no_answer guest_props an_offer ''host'' buffered_guest)
   \<and> pending_of ''host''
        (handleOffer browser_no_answer guest_props an_offer ''host'' buffered_guest)
        = [''candidate-1'']
   \<and> ice_calls_of ''host''
        (handleOffer browser_no_answer guest_props an_offer ''host'' buffered_guest) = []"
  unfolding handleOffer_no_answer
  by (simp add: pending_of_def record_of_def remote_installed_def ice_calls_of_def
      createPeerConnection_def buffered_guest_maps console_def Let_def new_transport_def)

section \<open>Teardown\<close>

text \<open>
  C6. When a transport reports \<open>disconnected\<close> or \<open>failed\<close>, the participant it was made
  for has afterwards no entry in the record map, the channel map or the candidate-buffer
  map, and is not in the connected-users view.
\<close>

theorem teardown_completeness:
  assumes "cs = Disconnected \<or> cs = Failed" and "h < next_pc s"
  shows "let s' = step x p (PcConnectionState h cs) s; u = pc_user (pcs s h)
         in map_of (peerConnections s') u = None
          \<and> map_of (dataChannels s') u = None
          \<and> map_of (pendingCandidates s') u = None
          \<and> u \<notin> set (connectedUsers s')"
  using assms
  by (auto simp add: pc_onconnectionstatechange_def console_def Let_def delete_absent)

theorem teardown_completeness_witness:
  "(Failed = Disconnected \<or> Failed = Failed) \<and> 0 < next_pc connected_host
   \<and> pc_user (pcs connected_host 0) = ''guest''
   \<and> map_of (peerConnections connected_host) ''guest'' = Some 0
   \<and> map_of (dataChannels connected_host) ''guest'' = Some 0
   \<and> map_of (pendingCandidates connected_host) ''guest'' = Some []
   \<and> ''guest'' \<in> set (connectedUsers connected_host)
   \<and> (let s' = step browser_ok host_props (PcConnectionState 0 Failed) connected_host
       in map_of (peerConnections s') ''guest'' = None
        \<and> map_of (dataChannels s') ''guest'' = None
        \<and> map_of (pendingCandidates s') ''guest'' = None
        \<and> ''guest'' \<notin> set (connectedUsers s'))"
proof -
  have a: "Failed = Disconnected \<or> Failed = Failed" by simp
  have b: "0 < next_pc connected_host" by (simp add: connected_host_maps)
  from teardown_completeness [OF a b, of browser_ok host_props]
  show ?thesis
    by (simp add: connected_host_maps Let_def)
qed

section \<open>Answers\<close>

text \<open>
  C10. An answer from a participant for whom no record exists changes nothing but the
  console: the arrival is logged, then the error, and every other part of the state
  (records, transports, candidate buffers, connected users, outbox) is as before.
\<close>

theorem handleAnswer_no_record:
  assumes "map_of (peerConnections s) u = None"
  shows "handleAnswer x p d u s
           = console Error ''Peer connection not found for user:''
               (console Info ''Received answer from:'' s)
         \<and> (handleAnswer x p d u s)\<lparr>logs := logs s\<rparr> = s"
  using assms by (simp add: handleAnswer_def console_def Let_def)

theorem handleAnswer_no_record_witness:
  "map_of (peerConnections init) ''stranger'' = None
   \<and> handleAnswer browser_ok host_props an_answer ''stranger'' init
       = console Error ''Peer connection not found for user:''
           (console Info ''Received answer from:'' init)
   \<and> (handleAnswer browser_ok host_props an_answer ''stranger'' init)\<lparr>logs := logs init\<rparr> = init"
proof -
  have none: "map_of (peerConnections init) ''stranger'' = None"
    by (simp add: init_def)
  from handleAnswer_no_record [OF none, of browser_ok host_props an_answer] none
  show ?thesis by blast
qed

text \<open>
  C5. An answer is installed only when the sender's record is in sub-state
  \<open>have-local-offer\<close>: in any other sub-state the handler logs the arrival and a warning and
  changes nothing else, and whenever the answer is not installed the state is as before up
  to the console. When the answer is installed the sender is in the connected-users view
  afterwards: the view is the old one if it held the sender already, and the old one with
  the sender at its end otherwise; when it is not installed the view is the old one. No
  offer-time operation (reacting to a new member or to a connection request, an explicit
  call, handling an incoming offer) changes the view.
\<close>

theorem answer_handling:
  "(map_of (peerConnections s) u = Some h \<and> signalingState (pcs s h) \<noteq> HaveLocalOffer \<longrightarrow>
      handleAnswer x p d u s
        = console Warn ''Wrong state for answer:'' (console Info ''Received answer from:'' s))
   \<and> (\<not> answer_applied x d u s \<longrightarrow> (handleAnswer x p d u s)\<lparr>logs := logs s\<rparr> = s)
   \<and> (answer_applied x d u s \<longrightarrow>
        map_option remoteDescription (record_of u (handleAnswer x p d u s)) = Some (Some d))
   \<and> (answer_applied x d u s \<longrightarrow> u \<in> set (connectedUsers (handleAnswer x p d u s)))
   \<and> connectedUsers (handleAnswer x p d u s)
        = (if answer_applied x d u s
           then (if u \<in> set (connectedUsers s) then connectedUsers s
                 else connectedUsers s @ [u])
           else connectedUsers s)
   \<and> set (connectedUsers (handleAnswer x p d u s))
        = (if answer_applied x d u s then insert u (set (connectedUsers s))
           else set (connectedUsers s))
   \<and> connectedUsers (handleAnswer x p d u s)
        = (if answer_applied x d u s then addConnectedUser u (connectedUsers s)
           else connectedUsers s)
   \<and> connectedUsers (handleUserConnected x p v s) = connectedUsers s
   \<and> connectedUsers (handleSendOffer x p v s) = connectedUsers s
   \<and> connectedUsers (startCall x p t s) = connectedUsers s
   \<and> connectedUsers (handleOffer x p d' v s) = connectedUsers s"
proof -
  have q1: "map_of (peerConnections s) u = Some h \<and> signalingState (pcs s h) \<noteq> HaveLocalOffer \<longrightarrow>
      handleAnswer x p d u s
        = console Warn ''Wrong state for answer:'' (console Info ''Received answer from:'' s)"
    using handleAnswer_wrong_state [of s u h x p d] by blast
  have q2: "\<not> answer_applied x d u s \<longrightarrow> (handleAnswer x p d u s)\<lparr>logs := logs s\<rparr> = s"
    using handleAnswer_not_applied [of x d u s p] by blast
  have q3: "answer_applied x d u s \<longrightarrow>
        map_option remoteDescription (record_of u (handleAnswer x p d u s)) = Some (Some d)"
    using handleAnswer_installs [of x d u s p] by blast
  have q4: "answer_applied x d u s \<longrightarrow> u \<in> set (connectedUsers (handleAnswer x p d u s))"
    using handleAnswer_adds_sender [of x d u s p] by blast
  from q1 q2 q3 q4 connectedUsers_handleAnswer_explicit [of x p d u s]
    handleAnswer_view_set [of x p d u s] connectedUsers_handleAnswer [of x p d u s]
    connectedUsers_handleUserConnected [of x p v s] connectedUsers_handleSendOffer [of x p v s]
    connectedUsers_startCall [of x p t s] connectedUsers_handleOffer [of x p d' v s]
  show ?thesis by (intro conjI)
qed

theorem answer_handling_witness:
  "answer_applied browser_ok an_answer ''guest'' offering_host
   \<and> connectedUsers offering_host = []
   \<and> connectedUsers (handleAnswer browser_ok host_props an_answer ''guest'' offering_host) = [''guest'']
   \<and> map_option remoteDescription
        (record_of ''guest'' (handleAnswer browser_ok host_props an_answer ''guest'' offering_host))
        = Some (Some an_answer)
   \<and> map_of (peerConnections connected_host) ''guest'' = Some 0
   \<and> signalingState (pcs connected_host 0) \<noteq> HaveLocalOffer
   \<and> \<not> answer_applied browser_ok an_answer ''guest'' connected_host
   \<and> handleAnswer browser_ok host_props an_answer ''guest'' connected_host
        = console Warn ''Wrong state for answer:''
            (console Info ''Received answer from:'' connected_host)
   \<and> (handleAnswer browser_ok host_props an_answer ''guest'' connected_host)
        \<lparr>logs := logs connected_host\<rparr> = connected_host
   \<and> answer_applied browser_ok an_answer ''guest2'' offering_second
   \<and> connectedUsers offering_second = [''guest'']
   \<and> connectedUsers (handleAnswer browser_ok host_props an_answer ''guest2'' offering_second)
        = [''guest'', ''guest2'']
   \<and> ''guest2'' \<in> set (connectedUsers
        (handleAnswer browser_ok host_props an_answer ''guest2'' offering_second))"
proof -
  have a: "answer_applied browser_ok an_answer ''guest'' offering_host"
    by (simp add: answer_applied_def record_of_def offering_host_maps
        pc_setRemoteDescription_def browser_ok_def an_answer_def)
  have b: "map_of (peerConnections connected_host) ''guest'' = Some 0
           \<and> signalingState (pcs connected_host 0) \<noteq> HaveLocalOffer"
    by (simp add: connected_host_maps connected_host_more)
  have c: "\<not> answer_applied browser_ok an_answer ''guest'' connected_host"
    by (simp add: answer_applied_def record_of_def connected_host_maps connected_host_more)
  from answer_handling [where s = offering_host and u = "''guest''" and x = browser_ok
      and d = an_answer and p = host_props] a
  have 1: "connectedUsers (handleAnswer browser_ok host_props an_answer ''guest'' offering_host) = [''guest'']
     \<and> map_option remoteDescription
        (record_of ''guest'' (handleAnswer browser_ok host_props an_answer ''guest'' offering_host))
        = Some (Some an_answer)"
    by (simp add: offering_host_maps addConnectedUser_def)
  from answer_handling [where s = connected_host and u = "''guest''" and x = browser_ok
      and d = an_answer and p = host_props and h = 0] b c
  have 2: "handleAnswer browser_ok host_props an_answer ''guest'' connected_host
        = console Warn ''Wrong state for answer:''
            (console Info ''Received answer from:'' connected_host)
     \<and> (handleAnswer browser_ok host_props an_answer ''guest'' connected_host)
        \<lparr>logs := logs connected_host\<rparr> = connected_host"
    by blast
  have e: "connectedUsers offering_host = []"
    by (simp add: offering_host_maps)
  have f: "answer_applied browser_ok an_answer ''guest2'' offering_second"
    by (simp add: answer_applied_def record_of_def offering_second_maps
        pc_setRemoteDescription_def browser_ok_def an_answer_def)
  have g: "connectedUsers offering_second = [''guest'']"
    by (simp add: offering_second_maps)
  from answer_handling [where s = offering_second and u = "''guest2''" and x = browser_ok
      and d = an_answer and p = host_props] f
  have 3: "connectedUsers (handleAnswer browser_ok host_props an_answer ''guest2'' offering_second)
        = [''guest'', ''guest2'']
     \<and> ''guest2'' \<in> set (connectedUsers
        (handleAnswer browser_ok host_props an_answer ''guest2'' offering_second))"
    by (simp add: offering_second_maps)
  from a b c e f g 1 2 3 show ?thesis
    by blast
qed



section \<open>The connected-users view\<close>

text \<open>
  C9. Whatever events a hook has gone through since it was mounted, its connected-users
  view holds no id twice.
\<close>

theorem connectedUsers_distinct: "distinct (connectedUsers (run evs))"
  unfolding run_def by (rule distinct_fold_step) (simp add: init_def)

theorem connectedUsers_distinct_witness:
  "connectedUsers (run sample_trace) = [''guest''] \<and> distinct (connectedUsers (run sample_trace))"
  by (rule conjI [OF sample_trace_view connectedUsers_distinct])

section \<open>Relay\<close>

text \<open>
  C4, as the code has it. An offer, an answer or a candidate sent by a socket is delivered
  to every member of the named room other than the sender, with the sender's id attached
  and the payload and the target id passed on unchanged; the relay's own state is
  untouched. The target id selects nothing.
\<close>

theorem relay_forwards_to_room:
  "on_client sid (EmitOffer r d t) st
     = (st, map (\<lambda>u. (u, OfferMsg d sid t)) (filter (\<lambda>u. u \<noteq> sid) (members st r)))
   \<and> on_client sid (EmitAnswer r d t) st
     = (st, map (\<lambda>u. (u, AnswerMsg d sid t)) (filter (\<lambda>u. u \<noteq> sid) (members st r)))
   \<and> on_client sid (EmitIce r c t) st
     = (st, map (\<lambda>u. (u, IceMsg c sid t)) (filter (\<lambda>u. u \<noteq> sid) (members st r)))"
  by (simp add: socket_to_def)

theorem relay_forwards_to_room_witness:
  "on_client ''guest'' (EmitAnswer ''482913'' an_answer ''host'') room_of_three
     = (room_of_three, [(''host'', AnswerMsg an_answer ''guest'' ''host''),
                        (''guest2'', AnswerMsg an_answer ''guest'' ''host'')])"
  using relay_forwards_to_room [of "''guest''" "''482913''" an_answer "''host''" room_of_three]
  by (simp add: room_of_three_members)

text \<open>
  C4 as stated fails. With host, guest and a second guest in one room, an offer and a
  candidate that the host addresses to the first guest are also delivered to the second,
  and so is the first guest's answer to the host.
\<close>

theorem relay_offer_reaches_bystander:
  "members room_of_three ''482913'' = [''host'', ''guest'', ''guest2'']
   \<and> snd (on_client ''host'' (EmitOffer ''482913'' an_offer ''guest'') room_of_three)
       = [(''guest'', OfferMsg an_offer ''host'' ''guest''),
          (''guest2'', OfferMsg an_offer ''host'' ''guest'')]
   \<and> snd (on_client ''host'' (EmitIce ''482913'' ''candidate-1'' ''guest'') room_of_three)
       = [(''guest'', IceMsg ''candidate-1'' ''host'' ''guest''),
          (''guest2'', IceMsg ''candidate-1'' ''host'' ''guest'')]
   \<and> snd (on_client ''guest'' (EmitAnswer ''482913'' an_answer ''host'') room_of_three)
       = [(''host'', AnswerMsg an_answer ''guest'' ''host''),
          (''guest2'', AnswerMsg an_answer ''guest'' ''host'')]"
  by (simp add: room_of_three_members socket_to_def)

section \<open>Input events\<close>

text \<open>
  C7, as the code has it. On the guest page a pointer event whose \<open>x\<close> and \<open>y\<close> are both
  within [0,100], the two ends included, is handed to \<open>sendInputEvent\<close> with exactly those
  coordinates (a wheel event with its delta only). One with \<open>x\<close> or \<open>y\<close> below 0 or above
  100, or not a finite number, sends nothing and changes nothing. The page's test
  \<open>within_bounds\<close> is true for exactly the finite pairs in that range. \<open>sendInputEvent\<close>
  without a target puts the serialised event once on every open channel of the channel map
  and on no other. On the receiving side there is no range check: what was serialised is
  handed to the input callback as it is, if one is registered.
\<close>

theorem pointer_events_sender_checked:
  "(0 \<le> a \<and> a \<le> 100 \<and> 0 \<le> c \<and> c \<le> 100 \<longrightarrow>
      webrtc (handleMouseMove (Fin a) (Fin c) now g)
        = sendInputEvent ((blank_event Mousemove now)\<lparr>ev_x := Some a, ev_y := Some c\<rparr>)
            None (webrtc g)
      \<and> webrtc (handleMouseDown (Fin a) (Fin c) btn now g)
        = sendInputEvent ((blank_event Mousedown now)
              \<lparr>ev_x := Some a, ev_y := Some c, ev_button := Some btn\<rparr>) None (webrtc g)
      \<and> webrtc (handleMouseUp (Fin a) (Fin c) btn now g)
        = sendInputEvent ((blank_event Mouseup now)
              \<lparr>ev_x := Some a, ev_y := Some c, ev_button := Some btn\<rparr>) None (webrtc g)
      \<and> webrtc (handleClick (Fin a) (Fin c) btn now g)
        = sendInputEvent ((blank_event Click now)
              \<lparr>ev_x := Some a, ev_y := Some c, ev_button := Some btn\<rparr>) None (webrtc g)
      \<and> webrtc (handleWheel (Fin a) (Fin c) dy now g)
        = sendInputEvent ((blank_event Wheel now)\<lparr>ev_deltaY := Some dy\<rparr>) None (webrtc g))
   \<and> (a < 0 \<or> 100 < a \<or> c < 0 \<or> 100 < c \<longrightarrow>
        handleMouseMove (Fin a) (Fin c) now g = g \<and> handleMouseDown (Fin a) (Fin c) btn now g = g
        \<and> handleMouseUp (Fin a) (Fin c) btn now g = g \<and> handleClick (Fin a) (Fin c) btn now g = g
        \<and> handleWheel (Fin a) (Fin c) dy now g = g)
   \<and> (\<not> is_finite x \<or> \<not> is_finite y \<longrightarrow>
        handleMouseMove x y now g = g \<and> handleMouseDown x y btn now g = g
        \<and> handleMouseUp x y btn now g = g \<and> handleClick x y btn now g = g
        \<and> handleWheel x y dy now g = g)
   \<and> within_bounds x y
        = (\<exists>a c. x = Fin a \<and> y = Fin c \<and> 0 \<le> a \<and> a \<le> 100 \<and> 0 \<le> c \<and> c \<le> 100)
   \<and> (\<not> within_bounds x y \<longrightarrow>
      handleMouseMove x y now g = g \<and> handleMouseDown x y btn now g = g
      \<and> handleMouseUp x y btn now g = g \<and> handleClick x y btn now g = g
      \<and> handleWheel x y dy now g = g)
   \<and> (within_bounds x y \<longrightarrow>
        (\<exists>a c. x = Fin a \<and> y = Fin c \<and> 0 \<le> a \<and> a \<le> 100 \<and> 0 \<le> c \<and> c \<le> 100
           \<and> webrtc (handleMouseMove x y now g)
               = sendInputEvent ((blank_event Mousemove now)\<lparr>ev_x := Some a, ev_y := Some c\<rparr>)
                   None (webrtc g)
           \<and> webrtc (handleMouseDown x y btn now g)
               = sendInputEvent ((blank_event Mousedown now)
                     \<lparr>ev_x := Some a, ev_y := Some c, ev_button := Some btn\<rparr>) None (webrtc g)
           \<and> webrtc (handleMouseUp x y btn now g)
               = sendInputEvent ((blank_event Mouseup now)
                     \<lparr>ev_x := Some a, ev_y := Some c, ev_button := Some btn\<rparr>) None (webrtc g)
           \<and> webrtc (handleClick x y btn now g)
               = sendInputEvent ((blank_event Click now)
                     \<lparr>ev_x := Some a, ev_y := Some c, ev_button := Some btn\<rparr>) None (webrtc g)
           \<and> webrtc (handleWheel x y dy now g)
               = sendInputEvent ((blank_event Wheel now)\<lparr>ev_deltaY := Some dy\<rparr>) None (webrtc g)))
   \<and> sent (chans (sendInputEvent e None s) dc)
        = sent (chans s dc)
          @ (if readyState (chans s dc) = ChOpen
             then replicate (count_list (map snd (dataChannels s)) dc) (JSON_stringify e) else [])
   \<and> delivered (channel_onmessage u (JSON_stringify e) s)
        = (if inputCallback s then delivered s @ [(e, u)] else delivered s)"
proof -
  have p1: "0 \<le> a \<and> a \<le> 100 \<and> 0 \<le> c \<and> c \<le> 100 \<longrightarrow>
      webrtc (handleMouseMove (Fin a) (Fin c) now g)
        = sendInputEvent ((blank_event Mousemove now)\<lparr>ev_x := Some a, ev_y := Some c\<rparr>)
            None (webrtc g)
      \<and> webrtc (handleMouseDown (Fin a) (Fin c) btn now g)
        = sendInputEvent ((blank_event Mousedown now)
              \<lparr>ev_x := Some a, ev_y := Some c, ev_button := Some btn\<rparr>) None (webrtc g)
      \<and> webrtc (handleMouseUp (Fin a) (Fin c) btn now g)
        = sendInputEvent ((blank_event Mouseup now)
              \<lparr>ev_x := Some a, ev_y := Some c, ev_button := Some btn\<rparr>) None (webrtc g)
      \<and> webrtc (handleClick (Fin a) (Fin c) btn now g)
        = sendInputEvent ((blank_event Click now)
              \<lparr>ev_x := Some a, ev_y := Some c, ev_button := Some btn\<rparr>) None (webrtc g)
      \<and> webrtc (handleWheel (Fin a) (Fin c) dy now g)
        = sendInputEvent ((blank_event Wheel now)\<lparr>ev_deltaY := Some dy\<rparr>) None (webrtc g)"
    using in_range_sent [of a c now g btn dy] by blast
  have p2: "a < 0 \<or> 100 < a \<or> c < 0 \<or> 100 < c \<longrightarrow>
        handleMouseMove (Fin a) (Fin c) now g = g \<and> handleMouseDown (Fin a) (Fin c) btn now g = g
        \<and> handleMouseUp (Fin a) (Fin c) btn now g = g \<and> handleClick (Fin a) (Fin c) btn now g = g
        \<and> handleWheel (Fin a) (Fin c) dy now g = g"
  proof
    assume "a < 0 \<or> 100 < a \<or> c < 0 \<or> 100 < c"
    then have "\<not> within_bounds (Fin a) (Fin c)"
      by (auto simp add: within_bounds_Fin)
    then show "handleMouseMove (Fin a) (Fin c) now g = g \<and> handleMouseDown (Fin a) (Fin c) btn now g = g
        \<and> handleMouseUp (Fin a) (Fin c) btn now g = g \<and> handleClick (Fin a) (Fin c) btn now g = g
        \<and> handleWheel (Fin a) (Fin c) dy now g = g"
      by (rule out_of_bounds_nothing)
  qed
  have p3: "\<not> is_finite x \<or> \<not> is_finite y \<longrightarrow>
        handleMouseMove x y now g = g \<and> handleMouseDown x y btn now g = g
        \<and> handleMouseUp x y btn now g = g \<and> handleClick x y btn now g = g
        \<and> handleWheel x y dy now g = g"
    using not_finite_out_of_bounds [of x y] out_of_bounds_nothing [of x y now g btn dy] by blast
  have p4: "within_bounds x y
        = (\<exists>a c. x = Fin a \<and> y = Fin c \<and> 0 \<le> a \<and> a \<le> 100 \<and> 0 \<le> c \<and> c \<le> 100)"
    by (rule within_bounds_iff)
  have p5: "\<not> within_bounds x y \<longrightarrow>
      handleMouseMove x y now g = g \<and> handleMouseDown x y btn now g = g
      \<and> handleMouseUp x y btn now g = g \<and> handleClick x y btn now g = g
      \<and> handleWheel x y dy now g = g"
    using out_of_bounds_nothing [of x y now g btn dy] by blast
  have p6: "within_bounds x y \<longrightarrow>
        (\<exists>a c. x = Fin a \<and> y = Fin c \<and> 0 \<le> a \<and> a \<le> 100 \<and> 0 \<le> c \<and> c \<le> 100
           \<and> webrtc (handleMouseMove x y now g)
               = sendInputEvent ((blank_event Mousemove now)\<lparr>ev_x := Some a, ev_y := Some c\<rparr>)
                   None (webrtc g)
           \<and> webrtc (handleMouseDown x y btn now g)
               = sendInputEvent ((blank_event Mousedown now)
                     \<lparr>ev_x := Some a, ev_y := Some c, ev_button := Some btn\<rparr>) None (webrtc g)
           \<and> webrtc (handleMouseUp x y btn now g)
               = sendInputEvent ((blank_event Mouseup now)
                     \<lparr>ev_x := Some a, ev_y := Some c, ev_button := Some btn\<rparr>) None (webrtc g)
           \<and> webrtc (handleClick x y btn now g)
               = sendInputEvent ((blank_event Click now)
                     \<lparr>ev_x := Some a, ev_y := Some c, ev_button := Some btn\<rparr>) None (webrtc g)
           \<and> webrtc (handleWheel x y dy now g)
               = sendInputEvent ((blank_event Wheel now)\<lparr>ev_deltaY := Some dy\<rparr>) None (webrtc g))"
    using within_bounds_sent [of x y now g btn dy] by blast
  have p7: "sent (chans (sendInputEvent e None s) dc)
        = sent (chans s dc)
          @ (if readyState (chans s dc) = ChOpen
             then replicate (count_list (map snd (dataChannels s)) dc) (JSON_stringify e) else [])"
    by (rule sendInputEvent_broadcast)
  have p8: "delivered (channel_onmessage u (JSON_stringify e) s)
        = (if inputCallback s then delivered s @ [(e, u)] else delivered s)"
    by (simp add: channel_onmessage_def JSON_stringify_def)
  from p1 p2 p3 p4 p5 p6 p7 p8 show ?thesis
    by (intro conjI)
qed

theorem pointer_events_sender_checked_witness:
  "(0::rat) \<le> 100 \<and> (100::rat) \<le> 100 \<and> (0::rat) \<le> 0
   \<and> sent (chans (webrtc (handleMouseMove (Fin 100) (Fin 0) 1000 watching_guest)) 0)
       = [Json ((blank_event Mousemove 1000)\<lparr>ev_x := Some 100, ev_y := Some 0\<rparr>)]
   \<and> (0::rat) \<le> 50 \<and> (50::rat) \<le> 100 \<and> (0::rat) \<le> 25 \<and> (25::rat) \<le> 100
   \<and> within_bounds (Fin 50) (Fin 25)
   \<and> sent (chans (webrtc (handleClick (Fin 50) (Fin 25) 0 1000 watching_guest)) 0)
       = [Json ((blank_event Click 1000)\<lparr>ev_x := Some 50, ev_y := Some 25, ev_button := Some 0\<rparr>)]
   \<and> (100::rat) < 150
   \<and> \<not> within_bounds (Fin 150) (Fin 25)
   \<and> handleClick (Fin 150) (Fin 25) 0 1000 watching_guest = watching_guest
   \<and> \<not> is_finite NaN
   \<and> \<not> within_bounds NaN (Fin 25)
   \<and> handleMouseMove NaN (Fin 25) 1000 watching_guest = watching_guest"
proof -
  have a: "within_bounds (Fin 50) (Fin 25)" by (simp add: within_bounds_def)
  have b: "\<not> within_bounds (Fin 150) (Fin 25)" by (simp add: within_bounds_def)
  have c: "\<not> within_bounds NaN (Fin 25)" by (simp add: within_bounds_def)
  have r0: "(0::rat) \<le> 100 \<and> (100::rat) \<le> 100 \<and> (0::rat) \<le> 0 \<and> (0::rat) \<le> 100" by simp
  have r1: "(0::rat) \<le> 50 \<and> (50::rat) \<le> 100 \<and> (0::rat) \<le> 25 \<and> (25::rat) \<le> 100" by simp
  have r2: "(100::rat) < 150" by simp
  have nf: "\<not> is_finite NaN" by simp
  from pointer_events_sender_checked [where a = 100 and c = 0
      and now = 1000 and g = watching_guest] r0
  have m0: "webrtc (handleMouseMove (Fin 100) (Fin 0) 1000 watching_guest)
        = sendInputEvent ((blank_event Mousemove 1000)\<lparr>ev_x := Some 100, ev_y := Some 0\<rparr>)
            None (webrtc watching_guest)"
    by blast
  from pointer_events_sender_checked [where s = "webrtc watching_guest" and dc = 0
      and e = "(blank_event Mousemove 1000)\<lparr>ev_x := Some 100, ev_y := Some 0\<rparr>"]
  have m1: "sent (chans (sendInputEvent ((blank_event Mousemove 1000)
             \<lparr>ev_x := Some 100, ev_y := Some 0\<rparr>) None (webrtc watching_guest)) 0)
        = [Json ((blank_event Mousemove 1000)\<lparr>ev_x := Some 100, ev_y := Some 0\<rparr>)]"
    by (simp add: watching_guest_maps JSON_stringify_def)
  from pointer_events_sender_checked [where a = 50 and c = 25 and btn = 0
      and now = 1000 and g = watching_guest] r1
  have 1: "webrtc (handleClick (Fin 50) (Fin 25) 0 1000 watching_guest)
        = sendInputEvent ((blank_event Click 1000)
             \<lparr>ev_x := Some 50, ev_y := Some 25, ev_button := Some 0\<rparr>) None (webrtc watching_guest)"
    by blast
  from pointer_events_sender_checked [where s = "webrtc watching_guest" and dc = 0
      and e = "(blank_event Click 1000)\<lparr>ev_x := Some 50, ev_y := Some 25, ev_button := Some 0\<rparr>"]
  have 2: "sent (chans (sendInputEvent ((blank_event Click 1000)
             \<lparr>ev_x := Some 50, ev_y := Some 25, ev_button := Some 0\<rparr>) None (webrtc watching_guest)) 0)
        = [Json ((blank_event Click 1000)\<lparr>ev_x := Some 50, ev_y := Some 25, ev_button := Some 0\<rparr>)]"
    by (simp add: watching_guest_maps JSON_stringify_def)
  from pointer_events_sender_checked [where a = 150 and c = 25 and btn = 0
      and now = 1000 and g = watching_guest] r2
  have 3: "handleClick (Fin 150) (Fin 25) 0 1000 watching_guest = watching_guest"
    by blast
  from pointer_events_sender_checked [where x = NaN and y = "Fin 25"
      and now = 1000 and g = watching_guest] nf
  have 4: "handleMouseMove NaN (Fin 25) 1000 watching_guest = watching_guest"
    by blast
  from a b c r0 r1 r2 nf m0 m1 1 2 3 4 show ?thesis by simp
qed

text \<open>
  C7 as stated fails on the receiving side. A host with a registered input callback gets
  on its channel a click at (150, -20): the callback is called with exactly that event.
  It also fails for an event in range on a guest page whose hook holds no channel: a click
  at (50, 25) passes the test and nothing is transmitted.
\<close>

theorem out_of_range_input_delivered:
  "ev_x far_event = Some 150 \<and> ev_y far_event = Some (- 20)
   \<and> \<not> within_bounds (Fin 150) (Fin (- 20))
   \<and> delivered (setInputCallback connected_host) = []
   \<and> delivered (step browser_ok host_props (ChMessage 0 (Json far_event))
                  (setInputCallback connected_host))
       = [(far_event, ''guest'')]
   \<and> within_bounds (Fin 50) (Fin 25)
   \<and> dataChannels (webrtc idle_guest) = []
   \<and> handleClick (Fin 50) (Fin 25) 0 1000 idle_guest = idle_guest"
  by (simp add: far_event_def within_bounds_def setInputCallback_def connected_host_channel
      on_channel_def channel_onmessage_def idle_guest_click)
     (simp add: idle_guest_def init_def)

section \<open>Input channel at offer time\<close>

text \<open>
  C8 fails on the code. A host told of a new member, and a host asked for a connection,
  emit their offer without having opened any channel: the channel map stays empty and no
  channel object exists. Only \<open>startCall\<close> opens the ordered channel \<open>input\<close> before it
  emits the offer.
\<close>

theorem auto_offer_opens_no_channel:
  "isHost host_props
   \<and> outbox (handleUserConnected browser_ok host_props ''guest'' init)
       = [EmitOffer ''482913'' an_offer ''guest'']
   \<and> dataChannels (handleUserConnected browser_ok host_props ''guest'' init) = []
   \<and> next_chan (handleUserConnected browser_ok host_props ''guest'' init) = 0
   \<and> outbox (handleSendOffer browser_ok host_props ''guest'' init)
       = [EmitOffer ''482913'' an_offer ''guest'']
   \<and> dataChannels (handleSendOffer browser_ok host_props ''guest'' init) = []
   \<and> next_chan (handleSendOffer browser_ok host_props ''guest'' init) = 0
   \<and> outbox (startCall browser_ok host_props (Some ''guest'') init)
       = [EmitOffer ''482913'' an_offer ''guest'']
   \<and> dataChannels (startCall browser_ok host_props (Some ''guest'') init) = [(''guest'', 0)]
   \<and> ch_label (chans (startCall browser_ok host_props (Some ''guest'') init) 0) = ''input''
   \<and> ch_ordered (chans (startCall browser_ok host_props (Some ''guest'') init) 0)"
  by (simp add: handleUserConnected_def handleSendOffer_def startCall_def
      createPeerConnection_def createDataChannel_def setupDataChannel_def new_channel_def
      createAndSendOffer_def pc_createOffer_def pc_setLocalDescription_def socket_emit_def
      console_def new_transport_def addTracks_def host_props_def browser_ok_def an_offer_def
      init_def Let_def)

end
